theory Spec2Isabelle
  imports Main
begin

section \<open>Text: the string operations the scraper uses\<close>

text \<open>
  Python strings are modelled as lists of 8-bit characters read as code points below 256.
  Case mapping is the one of the ASCII letters; every pattern and allowlist of the
  program is ASCII, and no other character below 256 is case-equivalent to an ASCII
  letter, so matching agrees with Python on this range. Text with code points from 256
  on is outside the model; four of them (U+0130, U+0131, U+017F, U+212A) match an ASCII
  letter under \<^verbatim>\<open>re.I\<close>, so a match of a pattern need not be spelled like the pattern
  once it is put in title case.
\<close>

definition ascii_upper :: string where
  "ascii_upper = ''ABCDEFGHIJKLMNOPQRSTUVWXYZ''"

definition ascii_lower :: string where
  "ascii_lower = ''abcdefghijklmnopqrstuvwxyz''"

definition lower_char :: "char \<Rightarrow> char" where
  "lower_char c = (case map_of (zip ascii_upper ascii_lower) c of Some l \<Rightarrow> l | None \<Rightarrow> c)"

definition upper_char :: "char \<Rightarrow> char" where
  "upper_char c = (case map_of (zip ascii_lower ascii_upper) c of Some u \<Rightarrow> u | None \<Rightarrow> c)"

definition is_cased :: "char \<Rightarrow> bool" where
  "is_cased c = (c \<in> set ascii_upper \<or> c \<in> set ascii_lower)"

text \<open>\<^verbatim>\<open>\d\<close> of \<^verbatim>\<open>re\<close>: below 256 only the ten ASCII digits.\<close>

definition is_digit :: "char \<Rightarrow> bool" where
  "is_digit c = (c \<in> set ''0123456789'')"

text \<open>\<^verbatim>\<open>\s\<close> of \<^verbatim>\<open>re\<close> and \<^verbatim>\<open>str.isspace\<close>: the twelve whitespace code points below 256.\<close>

definition is_space :: "char \<Rightarrow> bool" where
  "is_space c = (c \<in> set [CHR 0x09, CHR 0x0A, CHR 0x0B, CHR 0x0C, CHR 0x0D,
                            CHR 0x1C, CHR 0x1D, CHR 0x1E, CHR 0x1F, CHR 0x20,
                            CHR 0x85, CHR 0xA0])"

text \<open>
  \<^verbatim>\<open>str.title()\<close>: a cased character is upper-cased when the character before it is
  not cased, and lower-cased otherwise; the flag starts as false.
\<close>

fun title_from :: "bool \<Rightarrow> string \<Rightarrow> string" where
  "title_from prev [] = []"
| "title_from prev (c # cs) =
     (if prev then lower_char c else upper_char c) # title_from (is_cased c) cs"

definition title :: "string \<Rightarrow> string" where
  "title s = title_from False s"

text \<open>\<^verbatim>\<open>str.strip()\<close> with no argument.\<close>

definition strip :: "string \<Rightarrow> string" where
  "strip s = rev (dropWhile is_space (rev (dropWhile is_space s)))"

text \<open>\<^verbatim>\<open>str.startswith\<close>.\<close>

fun startswith :: "string \<Rightarrow> string \<Rightarrow> bool" where
  "startswith s [] = True"
| "startswith [] (p # ps) = False"
| "startswith (c # cs) (p # ps) = (c = p \<and> startswith cs ps)"

text \<open>A literal pattern under \<^verbatim>\<open>re.I\<close>, anchored at the start of the text.\<close>

fun starts_ci :: "string \<Rightarrow> string \<Rightarrow> bool" where
  "starts_ci [] s = True"
| "starts_ci (p # ps) [] = False"
| "starts_ci (p # ps) (c # cs) = (lower_char p = lower_char c \<and> starts_ci ps cs)"

text \<open>\<^verbatim>\<open>re.compile(p, re.I).search(s)\<close> for a literal \<open>p\<close>: does it occur anywhere.\<close>

fun search_ci :: "string \<Rightarrow> string \<Rightarrow> bool" where
  "search_ci p [] = starts_ci p []"
| "search_ci p (c # cs) = (starts_ci p (c # cs) \<or> search_ci p cs)"



text \<open>\<^verbatim>\<open>re.compile(r'Firm|Company|Employer', re.I)\<close>.\<close>

definition firm_pattern :: "string \<Rightarrow> bool" where
  "firm_pattern s = (search_ci ''firm'' s \<or> search_ci ''company'' s \<or> search_ci ''employer'' s)"

text \<open>
  \<^verbatim>\<open>re.search(r'BarNumber=(\d+)', href)\<close>: the leftmost occurrence of the literal that is
  followed by a digit; group 1 is the maximal run of digits after it.
\<close>

fun search_barnumber :: "string \<Rightarrow> string option" where
  "search_barnumber [] = None"
| "search_barnumber (c # cs) =
     (if startswith (c # cs) ''BarNumber='' \<and> takeWhile is_digit (drop 10 (c # cs)) \<noteq> []
      then Some (takeWhile is_digit (drop 10 (c # cs)))
      else search_barnumber cs)"

text \<open>
  \<^verbatim>\<open>re.match(r'^\d{8}$', text)\<close>: eight digits, with at most one line feed after them
  (\<^verbatim>\<open>$\<close> also matches before a final line feed).
\<close>

definition match_digits8 :: "string \<Rightarrow> bool" where
  "match_digits8 t =
     (let d = (if t \<noteq> [] \<and> last t = CHR 0x0A then butlast t else t)
      in length d = 8 \<and> list_all is_digit d)"

text \<open>
  \<^verbatim>\<open>re.search(r'Bar\s*(?:No\.?|Number|#)?\s*:?\s*(\d{8})', text, re.I)\<close>.
  Everything the pattern matches between \<^verbatim>\<open>Bar\<close> and the group is a non-digit, so at a
  given start the group can only begin at the first digit after \<^verbatim>\<open>Bar\<close>: the run of
  non-digits before it has to be whitespace, an optional label, whitespace, an optional
  colon, whitespace. The search takes the leftmost start at which this holds.
\<close>

definition bar_colon_ok :: "string \<Rightarrow> bool" where
  "bar_colon_ok s =
     (let b = dropWhile is_space s
      in b = [] \<or> (hd b = CHR '':'' \<and> dropWhile is_space (tl b) = []))"

definition bar_label_ok :: "string \<Rightarrow> bool" where
  "bar_label_ok pre =
     (let a = dropWhile is_space pre
      in list_ex (\<lambda>lab. starts_ci lab a \<and> bar_colon_ok (drop (length lab) a))
           ['''', ''no.'', ''no'', ''number'', ''#''])"

definition bar_match_here :: "string \<Rightarrow> string option" where
  "bar_match_here s =
     (if starts_ci ''bar'' s then
        (let r = drop 3 s;
             pre = takeWhile (\<lambda>c. \<not> is_digit c) r;
             post = dropWhile (\<lambda>c. \<not> is_digit c) r
         in if bar_label_ok pre \<and> 8 \<le> length post \<and> list_all is_digit (take 8 post)
            then Some (take 8 post) else None)
      else None)"

fun search_bar :: "string \<Rightarrow> string option" where
  "search_bar [] = None"
| "search_bar (c # cs) =
     (case bar_match_here (c # cs) of Some g \<Rightarrow> Some g | None \<Rightarrow> search_bar cs)"

text \<open>The city allowlist of \<^verbatim>\<open>parse_table_row\<close> (line 177) and the one of the pattern in
  \<^verbatim>\<open>parse_div_result\<close> (line 216), which has one more entry.\<close>

definition row_cities :: "string list" where
  "row_cities = [''Houston'', ''Dallas'', ''Austin'', ''San Antonio'', ''Fort Worth'']"

definition div_cities :: "string list" where
  "div_cities = [''Houston'', ''Dallas'', ''Austin'', ''San Antonio'', ''Fort Worth'', ''El Paso'']"

text \<open>
  \<^verbatim>\<open>re.search(r'(Houston|Dallas|Austin|San Antonio|Fort Worth|El Paso)', text, re.I)\<close>:
  the leftmost position at which an alternative matches, the alternatives tried in
  order; group 1 is the text as it stands in the page.
\<close>

definition city_match_here :: "string \<Rightarrow> string option" where
  "city_match_here s =
     (case List.find (\<lambda>a. starts_ci a s) div_cities of
        Some a \<Rightarrow> Some (take (length a) s)
      | None \<Rightarrow> None)"

fun search_city :: "string \<Rightarrow> string option" where
  "search_city [] = None"
| "search_city (c # cs) =
     (case city_match_here (c # cs) of Some g \<Rightarrow> Some g | None \<Rightarrow> search_city cs)"

text \<open>Python truthiness of a value that is \<^verbatim>\<open>None\<close> or a string.\<close>

fun truthy :: "string option \<Rightarrow> bool" where
  "truthy None = False"
| "truthy (Some s) = (s \<noteq> [])"

section \<open>The parsed page\<close>

text \<open>
  A page is the tree that \<^verbatim>\<open>BeautifulSoup(html, 'html.parser')\<close> returns: a tag has a
  name, the tokens of its \<^verbatim>\<open>class\<close> attribute, its other attributes and its children; a
  leaf is a \<^verbatim>\<open>NavigableString\<close>. Comments and the content of script and style
  elements, which \<^verbatim>\<open>get_text\<close> passes over, are not part of the tree.
\<close>

datatype node =
    Tag string "string list" "(string \<times> string) list" "node list"
  | NavigableString string

text \<open>Document order: a node, then its descendants, then what follows.\<close>

fun preorder :: "node \<Rightarrow> node list"
  and preorder_list :: "node list \<Rightarrow> node list" where
  "preorder (Tag n cs as ks) = Tag n cs as ks # preorder_list ks"
| "preorder (NavigableString s) = [NavigableString s]"
| "preorder_list [] = []"
| "preorder_list (k # ks) = preorder k @ preorder_list ks"

text \<open>
  An element of the page is a node together with the nodes that come after its subtree
  in document order; \<^verbatim>\<open>find_next\<close> walks into them.
\<close>

type_synonym element = "node \<times> node list"

fun walk :: "node \<Rightarrow> node list \<Rightarrow> element list"
  and walk_list :: "node list \<Rightarrow> node list \<Rightarrow> element list" where
  "walk (Tag n cs as ks) ctx = (Tag n cs as ks, ctx) # walk_list ks ctx"
| "walk (NavigableString s) ctx = [(NavigableString s, ctx)]"
| "walk_list [] ctx = []"
| "walk_list (k # ks) ctx = walk k (preorder_list ks @ ctx) @ walk_list ks ctx"

fun descendants :: "element \<Rightarrow> element list" where
  "descendants (Tag n cs as ks, ctx) = walk_list ks ctx"
| "descendants (NavigableString s, ctx) = []"


fun is_tag :: "node \<Rightarrow> bool" where
  "is_tag (Tag n cs as ks) = True"
| "is_tag (NavigableString s) = False"

fun tag_name :: "node \<Rightarrow> string option" where
  "tag_name (Tag n cs as ks) = Some n"
| "tag_name (NavigableString s) = None"


text \<open>\<^verbatim>\<open>tag.get(key)\<close>.\<close>

fun get_attr :: "node \<Rightarrow> string \<Rightarrow> string option" where
  "get_attr (Tag n cs as ks) key = map_of as key"
| "get_attr (NavigableString s) key = None"

text \<open>\<^verbatim>\<open>get_text()\<close>: the strings of the subtree, concatenated in document order.\<close>

fun node_string :: "node \<Rightarrow> string" where
  "node_string (Tag n cs as ks) = []"
| "node_string (NavigableString s) = s"

definition get_text :: "node \<Rightarrow> string" where
  "get_text n = concat (map node_string (preorder n))"


text \<open>\<^verbatim>\<open>find_all(name)\<close> and \<^verbatim>\<open>find(name)\<close>, by tag name or by a list of tag names.\<close>

definition find_all :: "string list \<Rightarrow> element \<Rightarrow> element list" where
  "find_all names e =
     filter (\<lambda>d. case tag_name (fst d) of Some n \<Rightarrow> n \<in> set names | None \<Rightarrow> False)
       (descendants e)"

definition find_tag :: "string list \<Rightarrow> element \<Rightarrow> element option" where
  "find_tag names e = (case find_all names e of [] \<Rightarrow> None | d # ds \<Rightarrow> Some d)"



text \<open>\<^verbatim>\<open>find(text=pattern)\<close>: the first string of the subtree that the pattern matches.\<close>

definition find_string :: "(string \<Rightarrow> bool) \<Rightarrow> element \<Rightarrow> element option" where
  "find_string pat e =
     List.find (\<lambda>d. case fst d of NavigableString s \<Rightarrow> pat s | Tag n cs as ks \<Rightarrow> False)
       (descendants e)"

text \<open>\<^verbatim>\<open>find_next()\<close>: the first tag after the element in document order, inside or
  outside the block the element was found in.\<close>

definition find_next :: "element \<Rightarrow> node option" where
  "find_next e = List.find is_tag (snd e)"

section \<open>The scraper\<close>

text \<open>The dictionary a block-level parser returns. \<^verbatim>\<open>parse_table_row\<close> builds it without
  the key \<^verbatim>\<open>firm_name\<close>, which every reader takes with \<^verbatim>\<open>.get\<close>: the field is \<open>None\<close> there.\<close>

record attorney =
  bar_number :: "string option"
  full_name :: "string option"
  first_name :: "string option"
  last_name :: "string option"
  status :: "string option"
  city :: "string option"
  firm_name :: "string option"
  practice_areas :: "string list"

text \<open>
  \<^verbatim>\<open>TexasBarScraper\<close> extends \<^verbatim>\<open>BaseBarScraper\<close> of \<^verbatim>\<open>base_scraper.py\<close>, which is not
  among the sources. The methods it inherits and calls are the fields of this record,
  so every result below holds for whatever they compute. \<^verbatim>\<open>clean_text\<close> also receives
  \<^verbatim>\<open>None\<close> (line 223); \<^verbatim>\<open>save_attorney\<close> works on the store \<open>'db\<close> and \<open>None\<close> stands for
  an exception it raises; \<^verbatim>\<open>get_page\<close> gives the parsed response, \<open>None\<close> when the
  response is missing or falsy. \<^verbatim>\<open>clean_text\<close> and \<^verbatim>\<open>parse_name\<close> are taken to return.
\<close>

record 'db base_scraper =
  clean_text :: "string option \<Rightarrow> string option"
  parse_name :: "string \<Rightarrow> string option \<times> string option"
  save_attorney :: "attorney \<Rightarrow> 'db \<Rightarrow> 'db option"
  get_page :: "string \<Rightarrow> element option"


subsection \<open>\<^verbatim>\<open>parse_table_row\<close>\<close>

text \<open>The variables \<^verbatim>\<open>name\<close>, \<^verbatim>\<open>bar_number\<close> and \<^verbatim>\<open>city\<close> of the loop over the cells.\<close>

type_synonym row_vars = "string option \<times> string option \<times> string option"

text \<open>The two \<^verbatim>\<open>elif\<close> branches of the loop body (lines 173 to 178).\<close>

fun scan_text :: "string option \<Rightarrow> row_vars \<Rightarrow> row_vars" where
  "scan_text None vars = vars"
| "scan_text (Some t) (name, bar, cty) =
     (if t \<noteq> [] \<and> match_digits8 t then (name, Some t, cty)
      else if t \<noteq> [] \<and> 2 < length t then
        (if title t \<in> set row_cities then (name, bar, Some (title t)) else (name, bar, cty))
      else (name, bar, cty))"

text \<open>The first branch (lines 166 to 172), taken for a cell with a link while no name is set.\<close>

definition scan_link :: "'db base_scraper \<Rightarrow> element \<Rightarrow> row_vars \<Rightarrow> row_vars" where
  "scan_link self link vars =
     (case vars of (name, bar, cty) \<Rightarrow>
        (let name' = clean_text self (Some (get_text (fst link)));
             href = (case get_attr (fst link) ''href'' of Some h \<Rightarrow> h | None \<Rightarrow> [])
         in case search_barnumber href of
              Some g \<Rightarrow> (name', Some g, cty)
            | None \<Rightarrow> (name', bar, cty)))"

definition scan_cell :: "'db base_scraper \<Rightarrow> row_vars \<Rightarrow> element \<Rightarrow> row_vars" where
  "scan_cell self vars cell =
     (let text = clean_text self (Some (get_text (fst cell)))
      in case find_tag [''a''] cell of
           Some link \<Rightarrow>
             (if \<not> truthy (fst vars) then scan_link self link vars else scan_text text vars)
         | None \<Rightarrow> scan_text text vars)"

definition scan_cells :: "'db base_scraper \<Rightarrow> element list \<Rightarrow> row_vars" where
  "scan_cells self cells = foldl (scan_cell self) (None, None, None) cells"

definition parse_table_row :: "'db base_scraper \<Rightarrow> element \<Rightarrow> attorney option" where
  "parse_table_row self row =
     (let cells = find_all [''td''] row
      in if length cells < 2 then None
         else case scan_cells self cells of (name, bar, cty) \<Rightarrow>
           (case name of
              None \<Rightarrow> None
            | Some nm \<Rightarrow>
                if nm = [] then None
                else case parse_name self nm of (fname, lname) \<Rightarrow>
                  Some \<lparr>bar_number = bar, full_name = Some nm, first_name = fname,
                        last_name = lname, status = Some ''Active'', city = cty,
                        firm_name = None, practice_areas = []\<rparr>))"

subsection \<open>\<^verbatim>\<open>parse_div_result\<close>\<close>

definition div_name :: "'db base_scraper \<Rightarrow> element \<Rightarrow> string option" where
  "div_name self blk =
     (case find_tag [''h2'', ''h3'', ''h4'', ''a'', ''strong''] blk of
        Some name_elem \<Rightarrow> clean_text self (Some (get_text (fst name_elem)))
      | None \<Rightarrow> None)"

definition div_firm :: "'db base_scraper \<Rightarrow> element \<Rightarrow> string option" where
  "div_firm self blk =
     (case find_string firm_pattern blk of
        Some firm_elem \<Rightarrow>
          clean_text self
            (case find_next firm_elem of Some t \<Rightarrow> Some (get_text t) | None \<Rightarrow> None)
      | None \<Rightarrow> None)"

definition parse_div_result :: "'db base_scraper \<Rightarrow> element \<Rightarrow> attorney option" where
  "parse_div_result self blk =
     (let name = div_name self blk;
          text = get_text (fst blk);
          bar = search_bar text;
          cty = map_option title (search_city text);
          firm = div_firm self blk
      in case name of
           None \<Rightarrow> None
         | Some nm \<Rightarrow>
             if nm = [] then None
             else case parse_name self nm of (fname, lname) \<Rightarrow>
               Some \<lparr>bar_number = bar, full_name = Some nm, first_name = fname,
                     last_name = lname, status = Some ''Active'', city = cty,
                     firm_name = firm, practice_areas = []\<rparr>)"

subsection \<open>\<^verbatim>\<open>parse_result\<close>\<close>

definition parse_result :: "'db base_scraper \<Rightarrow> element \<Rightarrow> attorney option" where
  "parse_result self element =
     (if tag_name (fst element) = Some ''tr'' then parse_table_row self element
      else parse_div_result self element)"

text \<open>
  The value of the variable \<^verbatim>\<open>name\<close> that the block-level parser computes for a block,
  before any test: the outcome of the loop over the cells for a row, the text of the
  first heading, link or emphasis for another block.
\<close>

definition resolved_name :: "'db base_scraper \<Rightarrow> element \<Rightarrow> string option" where
  "resolved_name self element =
     (if tag_name (fst element) = Some ''tr''
      then fst (scan_cells self (find_all [''td''] element))
      else div_name self element)"

subsection \<open>\<^verbatim>\<open>parse_results\<close>\<close>



text \<open>
  What a run carries through \<^verbatim>\<open>parse_results\<close>: the counters \<^verbatim>\<open>stats['found']\<close> and
  \<^verbatim>\<open>stats['errors']\<close>, the store behind \<^verbatim>\<open>save_attorney\<close>, and the locators handed to
  \<^verbatim>\<open>get_page\<close> so far (a log, not a value of the program). Printing and the pause
  \<^verbatim>\<open>delay(2, 3)\<close> are left out.
\<close>

record 'db run =
  found :: nat
  errors :: nat
  store :: 'db
  fetched :: "string list"

text \<open>The body of the loop over the results (lines 116 to 128).\<close>

definition process_result :: "'db base_scraper \<Rightarrow> 'db run \<Rightarrow> element \<Rightarrow> 'db run" where
  "process_result self st result =
     (case parse_result self result of
        None \<Rightarrow> st
      | Some a \<Rightarrow>
          (case save_attorney self a (store st) of
             None \<Rightarrow> st\<lparr>errors := errors st + 1\<rparr>
           | Some db' \<Rightarrow> st\<lparr>store := db', found := found st + 1\<rparr>))"


text \<open>
  How a call ends: with a value, or with an exception that leaves it. The state a
  failing call has reached goes with it, since nothing is rolled back.
\<close>

datatype error = IntegrityError | AttributeError | TypeError | RecursionError

datatype 'a outcome = Returns 'a | Raises error


subsection \<open>The inherited helpers, as the specification describes them\<close>

text \<open>
  Modelled from the spec: \<^verbatim>\<open>clean_text\<close> and \<^verbatim>\<open>parse_name\<close> of \<^verbatim>\<open>BaseBarScraper\<close>
  (\<^verbatim>\<open>base_scraper.py\<close> is not among the sources). The normalizer "trims whitespace and
  collapses internal whitespace runs in every text field" and splits a name with "first
  token = first name, remaining tokens = last name; single-token names have an empty
  first name". They are used for concrete pages only; the general results do not
  depend on them.
\<close>

fun split_acc :: "string \<Rightarrow> string \<Rightarrow> string list" where
  "split_acc w [] = (if w = [] then [] else [w])"
| "split_acc w (c # cs) =
     (if is_space c then (if w = [] then split_acc [] cs else w # split_acc [] cs)
      else split_acc (w @ [c]) cs)"

fun join_words :: "string list \<Rightarrow> string" where
  "join_words [] = []"
| "join_words [w] = w"
| "join_words (w # v # ws) = w @ '' '' @ join_words (v # ws)"

definition spec_clean_text :: "string option \<Rightarrow> string option" where
  "spec_clean_text t = map_option (\<lambda>s. join_words (split_acc [] s)) t"

definition spec_parse_name :: "string \<Rightarrow> string option \<times> string option" where
  "spec_parse_name s =
     (case split_acc [] s of
        [] \<Rightarrow> (Some [], Some [])
      | [w] \<Rightarrow> (Some [], Some w)
      | w # ws \<Rightarrow> (Some w, Some (join_words ws)))"

text \<open>A scraper over a given site whose store is the list of the records saved.\<close>

definition spec_scraper :: "(string \<Rightarrow> element option) \<Rightarrow> attorney list base_scraper" where
  "spec_scraper site =
     \<lparr>clean_text = spec_clean_text, parse_name = spec_parse_name,
      save_attorney = (\<lambda>a db. Some (db @ [a])), get_page = site\<rparr>"

definition new_run :: "attorney list run" where
  "new_run = \<lparr>found = 0, errors = 0, store = [], fetched = []\<rparr>"

text \<open>
  What a cell of a row can contribute: a bar number, through the link's \<^verbatim>\<open>href\<close> or
  through its text of eight digits, and a city, when its cleaned text in title case is
  on the allowlist.
\<close>

definition offers_bar :: "'db base_scraper \<Rightarrow> element \<Rightarrow> bool" where
  "offers_bar self cell =
     ((case find_tag [''a''] cell of
         Some link \<Rightarrow>
           search_barnumber (case get_attr (fst link) ''href'' of Some h \<Rightarrow> h | None \<Rightarrow> []) \<noteq> None
       | None \<Rightarrow> False) \<or>
      (case clean_text self (Some (get_text (fst cell))) of
         Some t \<Rightarrow> match_digits8 t
       | None \<Rightarrow> False))"

definition offers_city :: "'db base_scraper \<Rightarrow> element \<Rightarrow> bool" where
  "offers_city self cell =
     (case clean_text self (Some (get_text (fst cell))) of
        Some t \<Rightarrow> title t \<in> set row_cities
      | None \<Rightarrow> False)"

subsection \<open>Example pages\<close>

definition offline :: "string \<Rightarrow> element option" where
  "offline url = None"

text \<open>A row with a single cell, which holds a link with a name.\<close>

definition one_cell_row :: element where
  "one_cell_row =
     (Tag ''tr'' [] []
        [Tag ''td'' [] []
           [Tag ''a'' [] [(''href'', ''/detail?BarNumber=12345678'')]
              [NavigableString ''John Smith'']]], [])"

text \<open>A result block with a heading and nothing else.\<close>

definition name_only_div :: element where
  "name_only_div =
     (Tag ''div'' [''attorney-result''] [] [Tag ''h3'' [] [] [NavigableString ''Jane Doe'']], [])"

text \<open>A row with a name and a city that is on no allowlist.\<close>

definition waco_row :: element where
  "waco_row =
     (Tag ''tr'' [] []
        [Tag ''td'' [] [] [Tag ''a'' [] [(''href'', ''/detail'')] [NavigableString ''John Smith'']],
         Tag ''td'' [] [] [NavigableString ''Waco'']], [])"

text \<open>A row with a name, a city of the allowlist in lower case, and another city.\<close>

definition houston_row :: element where
  "houston_row =
     (Tag ''tr'' [] []
        [Tag ''td'' [] [] [Tag ''a'' [] [(''href'', ''/detail'')] [NavigableString ''John Smith'']],
         Tag ''td'' [] [] [NavigableString ''houston''],
         Tag ''td'' [] [] [NavigableString ''Waco'']], [])"

text \<open>A row with two cells and no link.\<close>

definition nameless_row :: element where
  "nameless_row =
     (Tag ''tr'' [] []
        [Tag ''td'' [] [] [NavigableString ''12345678''],
         Tag ''td'' [] [] [NavigableString ''Houston'']], [])"

text \<open>A block with a city in mixed case, a labelled bar number and a firm.\<close>

definition houston_div :: element where
  "houston_div =
     (Tag ''div'' [''member-listing''] []
        [Tag ''h3'' [] [] [NavigableString ''Jane Q Doe''],
         NavigableString ''Bar No. 87654321, hOUSTON. Firm:'',
         Tag ''span'' [] [] [NavigableString ''Doe LLP'']], [])"




subsection \<open>Following the next locators\<close>







section \<open>The store: \<^verbatim>\<open>insert_attorney\<close>\<close>

text \<open>
  A connection holds the two tables \<^verbatim>\<open>insert_attorney\<close> writes, the counter SQLite
  keeps for each \<^verbatim>\<open>AUTOINCREMENT\<close> key, and the row id of its last successful insert,
  which is what \<^verbatim>\<open>cursor.lastrowid\<close> reads after an \<^verbatim>\<open>INSERT\<close> statement. The columns
  \<^verbatim>\<open>created_at\<close> and \<^verbatim>\<open>updated_at\<close> hold the time of day and are left out. The
  connection is open; \<^verbatim>\<open>conn.cursor()\<close> on line 113 is outside the \<^verbatim>\<open>try\<close> block and is
  not modelled.
\<close>

record attorney_row =
  a_id :: nat
  a_bar_number :: "string option"
  a_state :: string
  a_first_name :: "string option"
  a_last_name :: "string option"
  a_full_name :: string
  a_status :: "string option"
  a_admission_date :: "string option"
  a_firm_name :: "string option"
  a_city :: "string option"
  a_county :: "string option"
  a_address :: "string option"
  a_email :: "string option"
  a_phone :: "string option"
  a_website :: "string option"
  a_law_school :: "string option"
  a_graduation_year :: "string option"

record practice_row =
  p_id :: nat
  p_attorney_id :: nat
  p_practice_area :: string
  p_is_primary :: bool

record connection =
  attorneys :: "attorney_row list"
  attorneys_seq :: nat
  practice_area_rows :: "practice_row list"
  practice_areas_seq :: nat
  last_insert_rowid :: nat

text \<open>
  The dictionary \<^verbatim>\<open>attorney_data\<close>. Its text entries are read with \<^verbatim>\<open>.get(key)\<close>, which
  gives \<^verbatim>\<open>None\<close> for a key that is absent or holds \<^verbatim>\<open>None\<close>; the entry
  \<^verbatim>\<open>practice_areas\<close> is read with the default \<^verbatim>\<open>[]\<close>, which applies when the key is
  absent only: a key that holds \<^verbatim>\<open>None\<close> gives \<^verbatim>\<open>None\<close>. An element of the list is
  \<^verbatim>\<open>None\<close>, a string, or a value of another type, for which an integer stands.
\<close>

datatype pyval = PyNone | PyStr string | PyInt int

datatype areas_value = NoKey | NoneValue | ListValue "pyval list"

record attorney_data =
  entry :: "string \<Rightarrow> string option"
  practice_areas_entry :: areas_value

text \<open>The next key of an \<^verbatim>\<open>AUTOINCREMENT\<close> column: one more than the largest key the
  table has ever had.\<close>

definition next_rowid :: "nat \<Rightarrow> nat list \<Rightarrow> nat" where
  "next_rowid seq ids = Suc (foldr max ids seq)"

text \<open>
  The statement of lines 116 to 152. The \<^verbatim>\<open>NOT NULL\<close> constraints on \<^verbatim>\<open>state\<close> and
  \<^verbatim>\<open>full_name\<close> are checked first and abort the statement. A row conflicts when its
  \<^verbatim>\<open>bar_number\<close> is not null and equal and its \<^verbatim>\<open>state\<close> is equal (nulls never conflict
  under \<^verbatim>\<open>UNIQUE\<close>); then the eleven columns of the \<^verbatim>\<open>SET\<close> clause are overwritten and
  the connection's last insert row id stays as it was. Otherwise a row is appended
  under the next key, which becomes the last insert row id. The counter advances on
  both paths.
\<close>

definition conflicts :: "string option \<Rightarrow> string \<Rightarrow> attorney_row \<Rightarrow> bool" where
  "conflicts bar st r = (bar \<noteq> None \<and> a_bar_number r = bar \<and> a_state r = st)"

definition new_row :: "nat \<Rightarrow> string \<Rightarrow> string \<Rightarrow> (string \<Rightarrow> string option) \<Rightarrow> attorney_row" where
  "new_row i st nm d =
     \<lparr>a_id = i, a_bar_number = d ''bar_number'', a_state = st,
      a_first_name = d ''first_name'', a_last_name = d ''last_name'', a_full_name = nm,
      a_status = d ''status'', a_admission_date = d ''admission_date'',
      a_firm_name = d ''firm_name'', a_city = d ''city'', a_county = d ''county'',
      a_address = d ''address'', a_email = d ''email'', a_phone = d ''phone'',
      a_website = d ''website'', a_law_school = d ''law_school'',
      a_graduation_year = d ''graduation_year''\<rparr>"

definition update_row :: "string \<Rightarrow> (string \<Rightarrow> string option) \<Rightarrow> attorney_row \<Rightarrow> attorney_row" where
  "update_row nm d r =
     r\<lparr>a_first_name := d ''first_name'', a_last_name := d ''last_name'', a_full_name := nm,
       a_status := d ''status'', a_firm_name := d ''firm_name'', a_city := d ''city'',
       a_county := d ''county'', a_address := d ''address'', a_email := d ''email'',
       a_phone := d ''phone'', a_website := d ''website''\<rparr>"

definition upsert_attorney ::
  "connection \<Rightarrow> (string \<Rightarrow> string option) \<Rightarrow> unit outcome \<times> connection" where
  "upsert_attorney conn d =
     (case d ''state'' of
        None \<Rightarrow> (Raises IntegrityError, conn)
      | Some st \<Rightarrow>
          (case d ''full_name'' of
             None \<Rightarrow> (Raises IntegrityError, conn)
           | Some nm \<Rightarrow>
               (let i = next_rowid (attorneys_seq conn) (map a_id (attorneys conn))
                in if list_ex (conflicts (d ''bar_number'') st) (attorneys conn)
                   then (Returns (),
                         conn\<lparr>attorneys :=
                                 map (\<lambda>r. if conflicts (d ''bar_number'') st r
                                           then update_row nm d r else r) (attorneys conn),
                               attorneys_seq := i\<rparr>)
                   else (Returns (),
                         conn\<lparr>attorneys := attorneys conn @ [new_row i st nm d],
                               attorneys_seq := i,
                               last_insert_rowid := i\<rparr>))))"

text \<open>
  The statement of lines 160 to 163, \<^verbatim>\<open>INSERT OR IGNORE\<close>: a pair of identity and area
  that is stored already is skipped and the last insert row id stays; the counter
  advances on both paths.
\<close>

definition insert_practice_area :: "connection \<Rightarrow> nat \<Rightarrow> string \<Rightarrow> bool \<Rightarrow> connection" where
  "insert_practice_area conn aid area prim =
     (let i = next_rowid (practice_areas_seq conn) (map p_id (practice_area_rows conn))
      in if list_ex (\<lambda>p. p_attorney_id p = aid \<and> p_practice_area p = area)
              (practice_area_rows conn)
         then conn\<lparr>practice_areas_seq := i\<rparr>
         else conn\<lparr>practice_area_rows :=
                      practice_area_rows conn @
                        [\<lparr>p_id = i, p_attorney_id = aid, p_practice_area = area,
                          p_is_primary = prim\<rparr>],
                    practice_areas_seq := i,
                    last_insert_rowid := i\<rparr>)"

text \<open>\<^verbatim>\<open>if area:\<close> and \<^verbatim>\<open>area.strip()\<close>.\<close>

fun py_truthy :: "pyval \<Rightarrow> bool" where
  "py_truthy PyNone = False"
| "py_truthy (PyStr s) = (s \<noteq> [])"
| "py_truthy (PyInt n) = (n \<noteq> 0)"

fun py_strip :: "pyval \<Rightarrow> string outcome" where
  "py_strip (PyStr s) = Returns (strip s)"
| "py_strip PyNone = Raises AttributeError"
| "py_strip (PyInt n) = Raises AttributeError"

text \<open>The loop of lines 158 to 163 from index \<open>i\<close> on. An exception leaves the rows
  written so far in place.\<close>

fun insert_areas ::
  "connection \<Rightarrow> nat \<Rightarrow> nat \<Rightarrow> pyval list \<Rightarrow> unit outcome \<times> connection" where
  "insert_areas conn aid i [] = (Returns (), conn)"
| "insert_areas conn aid i (area # rest) =
     (if py_truthy area then
        (case py_strip area of
           Raises e \<Rightarrow> (Raises e, conn)
         | Returns s \<Rightarrow> insert_areas (insert_practice_area conn aid s (i = 0)) aid (Suc i) rest)
      else insert_areas conn aid (Suc i) rest)"

text \<open>\<^verbatim>\<open>attorney_data.get('practice_areas', [])\<close>.\<close>

definition get_practice_areas :: "attorney_data \<Rightarrow> pyval list option" where
  "get_practice_areas attorney_data =
     (case practice_areas_entry attorney_data of
        NoKey \<Rightarrow> Some []
      | NoneValue \<Rightarrow> None
      | ListValue l \<Rightarrow> Some l)"

text \<open>The body of the \<^verbatim>\<open>try\<close> block (lines 116 to 165). \<^verbatim>\<open>enumerate\<close> raises
  \<^verbatim>\<open>TypeError\<close> on \<^verbatim>\<open>None\<close>, after the statement for the attorney row has run.\<close>

definition insert_attorney_body ::
  "connection \<Rightarrow> attorney_data \<Rightarrow> nat outcome \<times> connection" where
  "insert_attorney_body conn attorney_data =
     (case upsert_attorney conn (entry attorney_data) of
        (Raises e, conn1) \<Rightarrow> (Raises e, conn1)
      | (Returns u, conn1) \<Rightarrow>
          (let attorney_id = last_insert_rowid conn1;
               practice_areas = get_practice_areas attorney_data
           in case practice_areas of
                None \<Rightarrow> (Raises TypeError, conn1)
              | Some areas \<Rightarrow>
                  (case insert_areas conn1 attorney_id 0 areas of
                     (Raises e, conn2) \<Rightarrow> (Raises e, conn2)
                   | (Returns u, conn2) \<Rightarrow> (Returns attorney_id, conn2))))"

text \<open>\<^verbatim>\<open>insert_attorney\<close>: the body, and \<^verbatim>\<open>return None\<close> in the handler of
  \<^verbatim>\<open>except Exception\<close>.\<close>

definition insert_attorney ::
  "connection \<Rightarrow> attorney_data \<Rightarrow> nat option outcome \<times> connection" where
  "insert_attorney conn attorney_data =
     (case insert_attorney_body conn attorney_data of
        (Raises e, conn') \<Rightarrow> (Returns None, conn')
      | (Returns attorney_id, conn') \<Rightarrow> (Returns (Some attorney_id), conn'))"

text \<open>The constraints of the schema that the results below rely on: the keys of a
  table are distinct, and so are the pairs under a \<^verbatim>\<open>UNIQUE\<close> clause.\<close>

definition attorney_keys :: "connection \<Rightarrow> (string \<times> string) list" where
  "attorney_keys conn =
     concat (map (\<lambda>r. case a_bar_number r of Some b \<Rightarrow> [(b, a_state r)] | None \<Rightarrow> [])
               (attorneys conn))"

definition practice_keys :: "connection \<Rightarrow> (nat \<times> string) list" where
  "practice_keys conn =
     map (\<lambda>p. (p_attorney_id p, p_practice_area p)) (practice_area_rows conn)"

definition schema_ok :: "connection \<Rightarrow> bool" where
  "schema_ok conn =
     (distinct (map a_id (attorneys conn)) \<and> distinct (attorney_keys conn) \<and>
      distinct (map p_id (practice_area_rows conn)) \<and> distinct (practice_keys conn))"

text \<open>An element of a practice-area list on which the loop raises nothing: a string,
  or a value that is skipped.\<close>

fun text_or_falsy :: "pyval \<Rightarrow> bool" where
  "text_or_falsy PyNone = True"
| "text_or_falsy (PyStr s) = True"
| "text_or_falsy (PyInt n) = (n = 0)"

text \<open>A record whose entry \<^verbatim>\<open>practice_areas\<close> is absent or a list of such elements.\<close>

definition areas_raise_nothing :: "attorney_data \<Rightarrow> bool" where
  "areas_raise_nothing attorney_data =
     (case get_practice_areas attorney_data of
        None \<Rightarrow> False
      | Some l \<Rightarrow> list_all text_or_falsy l)"

text \<open>The rows stored under a key, and the areas stored for an identity.\<close>

definition rows_with_key :: "connection \<Rightarrow> string \<Rightarrow> string \<Rightarrow> attorney_row list" where
  "rows_with_key conn b st =
     filter (\<lambda>r. a_bar_number r = Some b \<and> a_state r = st) (attorneys conn)"

definition areas_of :: "connection \<Rightarrow> nat \<Rightarrow> (string \<times> bool) list" where
  "areas_of conn aid =
     map (\<lambda>p. (p_practice_area p, p_is_primary p))
       (filter (\<lambda>p. p_attorney_id p = aid) (practice_area_rows conn))"

subsection \<open>Example records\<close>

definition empty_connection :: connection where
  "empty_connection =
     \<lparr>attorneys = [], attorneys_seq = 0, practice_area_rows = [], practice_areas_seq = 0,
      last_insert_rowid = 0\<rparr>"

definition smith_entries :: "string \<Rightarrow> string option" where
  "smith_entries =
     map_of [(''bar_number'', ''12345678''), (''state'', ''TX''),
             (''full_name'', ''John Smith''), (''first_name'', ''John''),
             (''last_name'', ''Smith''), (''status'', ''Active''), (''city'', ''Austin'')]"

definition smith :: attorney_data where
  "smith = \<lparr>entry = smith_entries,
            practice_areas_entry = ListValue [PyStr ''Litigation'', PyStr ''Family Law'']\<rparr>"

text \<open>The same attorney with no practice areas, without a name, and without a bar
  number.\<close>

definition smith_plain :: attorney_data where
  "smith_plain = \<lparr>entry = smith_entries, practice_areas_entry = ListValue []\<rparr>"

definition smith_unnamed :: attorney_data where
  "smith_unnamed = \<lparr>entry = smith_entries(''full_name'' := None), practice_areas_entry = NoKey\<rparr>"

definition smith_unnumbered :: attorney_data where
  "smith_unnumbered =
     \<lparr>entry = smith_entries(''bar_number'' := None),
      practice_areas_entry = ListValue [PyStr ''Litigation'', PyStr ''Family Law'']\<rparr>"

text \<open>The same attorney after a move, with one column of the \<^verbatim>\<open>SET\<close> clause and one
  column outside it changed.\<close>

definition smith_moved :: attorney_data where
  "smith_moved =
     \<lparr>entry = smith_entries(''city'' := Some ''Dallas'', ''law_school'' := Some ''UT''),
      practice_areas_entry = NoKey\<rparr>"

text \<open>A list whose first entry is empty, a list with an entry that is no string, and a
  key that holds \<^verbatim>\<open>None\<close>.\<close>

definition smith_none_areas :: attorney_data where
  "smith_none_areas = \<lparr>entry = smith_entries, practice_areas_entry = NoneValue\<rparr>"

definition smith_blank_first :: attorney_data where
  "smith_blank_first =
     \<lparr>entry = smith_entries, practice_areas_entry = ListValue [PyStr [], PyStr ''Litigation'']\<rparr>"

definition smith_bad_area :: attorney_data where
  "smith_bad_area =
     \<lparr>entry = smith_entries, practice_areas_entry = ListValue [PyStr ''Litigation'', PyInt 7]\<rparr>"

section \<open>The runner: \<^verbatim>\<open>run_scraper\<close>\<close>

text \<open>The registry \<^verbatim>\<open>SCRAPERS\<close>: state code, state name, module and class.\<close>

definition SCRAPERS :: "(string \<times> string \<times> string \<times> string) list" where
  "SCRAPERS =
     [(''CA'', ''California'', ''scrapers.california_bar'', ''CaliforniaBarScraper''),
      (''NY'', ''New York'', ''scrapers.new_york_bar'', ''NewYorkBarScraper''),
      (''TX'', ''Texas'', ''scrapers.texas_bar'', ''TexasBarScraper''),
      (''FL'', ''Florida'', ''scrapers.florida_bar'', ''FloridaBarScraper''),
      (''IL'', ''Illinois'', ''scrapers.illinois_bar'', ''IllinoisBarScraper'')]"

text \<open>What \<^verbatim>\<open>run_scraper\<close> prints.\<close>

datatype message =
    UnknownState string
  | AvailableStates "string list"
  | CouldNotImport string
  | ErrorRunning string

text \<open>
  Lines 49 to 54 import the module, take the class, construct the scraper and call its
  \<^verbatim>\<open>run\<close>, which belongs to \<^verbatim>\<open>BaseBarScraper\<close> and is not among the sources. They are
  the parameter \<open>load\<close>: from the module, the class and the database path it takes the
  world outside the runner (the network, the store with its scrape runs) to a new one,
  and ends normally, with an \<^verbatim>\<open>ImportError\<close>, or with another exception.
\<close>

datatype ending = Completed | ImportFailed | OtherFailure

definition run_scraper ::
  "(string \<Rightarrow> string \<Rightarrow> string \<Rightarrow> 'w \<Rightarrow> ending \<times> 'w) \<Rightarrow> string \<Rightarrow> string \<Rightarrow> 'w \<Rightarrow>
     (bool \<times> message list) \<times> 'w" where
  "run_scraper load state_code db_path w =
     (case map_of SCRAPERS state_code of
        None \<Rightarrow>
          ((False, [UnknownState state_code, AvailableStates (map fst SCRAPERS)]), w)
      | Some (state_name, module_name, class_name) \<Rightarrow>
          (case load module_name class_name db_path w of
             (Completed, w') \<Rightarrow> ((True, []), w')
           | (ImportFailed, w') \<Rightarrow> ((False, [CouldNotImport state_name]), w')
           | (OtherFailure, w') \<Rightarrow> ((False, [ErrorRunning state_name]), w')))"

text \<open>A loader that always completes, on a world that counts the scrapers run.\<close>

definition counting_load :: "string \<Rightarrow> string \<Rightarrow> string \<Rightarrow> nat \<Rightarrow> ending \<times> nat" where
  "counting_load module_name class_name db_path w = (Completed, Suc w)"

section \<open>Properties of the block-level parsers and of the cascade\<close>

lemma truthy_iff: "truthy x \<longleftrightarrow> (\<exists>s. x = Some s \<and> s \<noteq> [])"
  by (cases x) auto

lemma scan_text_bar:
  "(case t of Some s \<Rightarrow> \<not> match_digits8 s | None \<Rightarrow> True) \<Longrightarrow>
     fst (snd (scan_text t vars)) = fst (snd vars)"
  by (cases t; cases vars) auto

lemma scan_cell_bar:
  "\<not> offers_bar self cell \<Longrightarrow> fst (snd (scan_cell self vars cell)) = fst (snd vars)"
  by (cases vars)
     (auto simp: offers_bar_def scan_cell_def scan_link_def Let_def scan_text_bar
        split: option.splits)

lemma scan_cells_bar:
  "\<forall>cell \<in> set cells. \<not> offers_bar self cell \<Longrightarrow>
     fst (snd (foldl (scan_cell self) vars cells)) = fst (snd vars)"
  by (induction cells arbitrary: vars) (simp_all add: scan_cell_bar)

lemma scan_text_city:
  "(case t of Some s \<Rightarrow> title s \<notin> set row_cities | None \<Rightarrow> True) \<Longrightarrow>
     snd (snd (scan_text t vars)) = snd (snd vars)"
  by (cases t; cases vars) auto

lemma scan_cell_city:
  "\<not> offers_city self cell \<Longrightarrow> snd (snd (scan_cell self vars cell)) = snd (snd vars)"
  by (cases vars)
     (auto simp: offers_city_def scan_cell_def scan_link_def Let_def scan_text_city
        split: option.splits)

lemma scan_cells_city:
  "\<forall>cell \<in> set cells. \<not> offers_city self cell \<Longrightarrow>
     snd (snd (foldl (scan_cell self) vars cells)) = snd (snd vars)"
  by (induction cells arbitrary: vars) (simp_all add: scan_cell_city)

lemma scan_cell_city_cases:
  "snd (snd (scan_cell self vars cell)) = snd (snd vars) \<or>
   (\<exists>t. clean_text self (Some (get_text (fst cell))) = Some t \<and> title t \<in> set row_cities \<and>
        snd (snd (scan_cell self vars cell)) = Some (title t))"
  by (cases vars; cases "clean_text self (Some (get_text (fst cell)))")
     (auto simp: scan_cell_def scan_link_def Let_def split: option.splits)

lemma scan_cells_city_from:
  "snd (snd (foldl (scan_cell self) vars cells)) = Some c \<Longrightarrow>
     snd (snd vars) = Some c \<or>
     (\<exists>cell \<in> set cells. \<exists>t. clean_text self (Some (get_text (fst cell))) = Some t \<and>
        title t \<in> set row_cities \<and> c = title t)"
proof (induction cells arbitrary: vars)
  case Nil
  then show ?case by simp
next
  case (Cons cell cells)
  from Cons.prems have "snd (snd (foldl (scan_cell self) (scan_cell self vars cell) cells)) = Some c"
    by simp
  from Cons.IH[OF this] scan_cell_city_cases[of self vars cell] show ?case
    by auto
qed



text \<open>
  C4. A block for which the parser resolves no name (\<^verbatim>\<open>name\<close> is \<^verbatim>\<open>None\<close> or empty)
  yields no record, and the loop of \<^verbatim>\<open>parse_results\<close> leaves the run as it was for it:
  nothing is saved and \<^verbatim>\<open>found\<close> keeps its value.
\<close>

theorem nameless_block_rejected:
  "\<not> truthy (resolved_name self el) \<Longrightarrow>
     parse_result self el = None \<and> process_result self st el = st"
  by (cases "scan_cells self (find_all [''td''] el)")
     (auto simp: resolved_name_def parse_result_def process_result_def parse_table_row_def
        parse_div_result_def Let_def split: option.splits if_splits prod.splits)

theorem nameless_block_rejected_witness:
  "\<not> truthy (resolved_name (spec_scraper offline) nameless_row) \<and>
   parse_result (spec_scraper offline) nameless_row = None \<and>
   process_result (spec_scraper offline) new_run nameless_row = new_run"
proof -
  have h: "\<not> truthy (resolved_name (spec_scraper offline) nameless_row)"
    by code_simp
  from h nameless_block_rejected[OF h, of new_run] show ?thesis by simp
qed

text \<open>
  C5, as the code has it. A block with a resolved name yields a record with that name,
  except that a table row is first required to have two cells or more: a row with fewer
  is rejected before any name is looked for.
\<close>

theorem named_block_accepted:
  assumes "truthy (resolved_name self el)"
    and "tag_name (fst el) = Some ''tr'' \<longrightarrow> 2 \<le> length (find_all [''td''] el)"
  shows "\<exists>a. parse_result self el = Some a \<and> full_name a = resolved_name self el"
proof -
  from assms(1) obtain nm where nm: "resolved_name self el = Some nm" "nm \<noteq> []"
    by (auto simp: truthy_iff)
  show ?thesis
  proof (cases "tag_name (fst el) = Some ''tr''")
    case True
    with nm obtain b c where "scan_cells self (find_all [''td''] el) = (Some nm, b, c)"
      by (cases "scan_cells self (find_all [''td''] el)") (auto simp: resolved_name_def)
    with True nm assms(2) show ?thesis
      by (auto simp: parse_result_def parse_table_row_def resolved_name_def Let_def
            split: prod.splits)
  next
    case False
    with nm show ?thesis
      by (auto simp: parse_result_def parse_div_result_def resolved_name_def Let_def
            split: prod.splits)
  qed
qed

theorem named_block_accepted_witness:
  "truthy (resolved_name (spec_scraper offline) waco_row) \<and>
   2 \<le> length (find_all [''td''] waco_row) \<and>
   (\<exists>a. parse_result (spec_scraper offline) waco_row = Some a \<and>
        full_name a = resolved_name (spec_scraper offline) waco_row)"
proof -
  have h: "truthy (resolved_name (spec_scraper offline) waco_row)"
    and k: "2 \<le> length (find_all [''td''] waco_row)"
    by code_simp+
  from h k named_block_accepted[OF h, of ] show ?thesis by simp
qed

text \<open>
  C5 as stated fails: the single cell of this row holds a link with the name
  \<^verbatim>\<open>John Smith\<close>, and the row is rejected.
\<close>

theorem one_cell_row_rejected:
  "truthy (resolved_name (spec_scraper offline) one_cell_row) \<and>
   parse_result (spec_scraper offline) one_cell_row = None"
  by code_simp

text \<open>
  C6, as the code has it. In every record produced, \<^verbatim>\<open>status\<close> is the constant
  \<^verbatim>\<open>Active\<close> and the list of practice areas is empty, whatever the block holds. The
  other optional fields are null when the block offers nothing for them: for a row, the
  firm name always, the bar number when no cell offers one, the city when no cell
  offers one; for another block, the bar number and the city when their patterns do
  not match the text of the block, the firm name when no string of the block matches
  the firm pattern.
\<close>

theorem fields_not_extracted:
  assumes "parse_result self el = Some a"
  shows "status a = Some ''Active'' \<and> practice_areas a = [] \<and>
     (tag_name (fst el) = Some ''tr'' \<longrightarrow>
        firm_name a = None \<and>
        ((\<forall>cell \<in> set (find_all [''td''] el). \<not> offers_bar self cell) \<longrightarrow> bar_number a = None) \<and>
        ((\<forall>cell \<in> set (find_all [''td''] el). \<not> offers_city self cell) \<longrightarrow> city a = None)) \<and>
     (tag_name (fst el) \<noteq> Some ''tr'' \<longrightarrow>
        (search_bar (get_text (fst el)) = None \<longrightarrow> bar_number a = None) \<and>
        (search_city (get_text (fst el)) = None \<longrightarrow> city a = None) \<and>
        (find_string firm_pattern el = None \<longrightarrow> firm_name a = None))"
proof (cases "tag_name (fst el) = Some ''tr''")
  case True
  with assms have row: "parse_table_row self el = Some a"
    by (simp add: parse_result_def)
  obtain n b c where sc: "scan_cells self (find_all [''td''] el) = (n, b, c)"
    by (cases "scan_cells self (find_all [''td''] el)") auto
  from row sc have a: "status a = Some ''Active''" "practice_areas a = []" "firm_name a = None"
      "bar_number a = b" "city a = c"
    by (auto simp: parse_table_row_def Let_def split: if_splits option.splits prod.splits)
  have b: "(\<forall>cell \<in> set (find_all [''td''] el). \<not> offers_bar self cell) \<longrightarrow> b = None"
    using scan_cells_bar[of "find_all [''td''] el" self "(None, None, None)"] sc
    by (auto simp: scan_cells_def)
  have c: "(\<forall>cell \<in> set (find_all [''td''] el). \<not> offers_city self cell) \<longrightarrow> c = None"
    using scan_cells_city[of "find_all [''td''] el" self "(None, None, None)"] sc
    by (auto simp: scan_cells_def)
  from True a b c show ?thesis by simp
next
  case False
  with assms have "parse_div_result self el = Some a"
    by (simp add: parse_result_def)
  then have "status a = Some ''Active''" "practice_areas a = []"
      "bar_number a = search_bar (get_text (fst el))"
      "city a = map_option title (search_city (get_text (fst el)))"
      "firm_name a = div_firm self el"
    by (auto simp: parse_div_result_def Let_def split: if_splits option.splits prod.splits)
  with False show ?thesis by (simp add: div_firm_def)
qed

theorem fields_not_extracted_witness:
  "parse_result (spec_scraper offline) name_only_div =
     Some \<lparr>bar_number = None, full_name = Some ''Jane Doe'', first_name = Some ''Jane'',
           last_name = Some ''Doe'', status = Some ''Active'', city = None,
           firm_name = None, practice_areas = []\<rparr> \<and>
   tag_name (fst name_only_div) \<noteq> Some ''tr'' \<and>
   search_bar (get_text (fst name_only_div)) = None \<and>
   search_city (get_text (fst name_only_div)) = None \<and>
   find_string firm_pattern name_only_div = None \<and>
   parse_result (spec_scraper offline) waco_row =
     Some \<lparr>bar_number = None, full_name = Some ''John Smith'', first_name = Some ''John'',
           last_name = Some ''Smith'', status = Some ''Active'', city = None,
           firm_name = None, practice_areas = []\<rparr> \<and>
   tag_name (fst waco_row) = Some ''tr'' \<and>
   list_all (\<lambda>cell. \<not> offers_bar (spec_scraper offline) cell) (find_all [''td''] waco_row) \<and>
   list_all (\<lambda>cell. \<not> offers_city (spec_scraper offline) cell) (find_all [''td''] waco_row)"
proof -
  have h: "parse_result (spec_scraper offline) name_only_div =
     Some \<lparr>bar_number = None, full_name = Some ''Jane Doe'', first_name = Some ''Jane'',
           last_name = Some ''Doe'', status = Some ''Active'', city = None,
           firm_name = None, practice_areas = []\<rparr>"
    and h': "tag_name (fst name_only_div) \<noteq> Some ''tr''"
     "search_bar (get_text (fst name_only_div)) = None"
     "search_city (get_text (fst name_only_div)) = None"
     "find_string firm_pattern name_only_div = None"
    by code_simp+
  have k: "parse_result (spec_scraper offline) waco_row =
     Some \<lparr>bar_number = None, full_name = Some ''John Smith'', first_name = Some ''John'',
           last_name = Some ''Smith'', status = Some ''Active'', city = None,
           firm_name = None, practice_areas = []\<rparr>"
    and k': "tag_name (fst waco_row) = Some ''tr''"
     "list_all (\<lambda>cell. \<not> offers_bar (spec_scraper offline) cell) (find_all [''td''] waco_row)"
     "list_all (\<lambda>cell. \<not> offers_city (spec_scraper offline) cell) (find_all [''td''] waco_row)"
    by code_simp+
  note fields_not_extracted[OF h] fields_not_extracted[OF k]
  with h h' k k' show ?thesis by simp
qed

text \<open>
  C6 as stated fails: the text of this block is \<^verbatim>\<open>Jane Doe\<close> and nothing else, and the
  record has the status \<^verbatim>\<open>Active\<close>.
\<close>

theorem status_is_invented:
  "map_option status (parse_result (spec_scraper offline) name_only_div) = Some (Some ''Active'') \<and>
   get_text (fst name_only_div) = ''Jane Doe''"
  by code_simp

lemma length_title_from: "length (title_from p s) = length s"
  by (induction s arbitrary: p) simp_all

lemma row_city_shape:
  assumes "title t \<in> set row_cities"
  shows "t \<noteq> [] \<and> 2 < length t \<and> \<not> match_digits8 t"
proof -
  have l: "length (title t) = length t"
    by (simp add: title_def length_title_from)
  from assms have "length (title t) \<in> {6, 7, 10, 11}"
    by (auto simp: row_cities_def)
  with l have s: "length t \<in> {6, 7, 10, 11}" by simp
  then have "t \<noteq> []" "2 < length t" by auto
  moreover from s have "\<not> match_digits8 t"
    by (auto simp: match_digits8_def Let_def)
  ultimately show ?thesis by simp
qed

lemma scan_text_stores:
  "title t \<in> set row_cities \<Longrightarrow> scan_text (Some t) (n, b, c) = (n, b, Some (title t))"
  using row_city_shape[of t] by simp

lemma scan_cell_stores:
  assumes "clean_text self (Some (get_text (fst cell))) = Some t"
    and "title t \<in> set row_cities"
    and "find_tag [''a''] cell = None \<or> truthy (fst vars)"
  shows "snd (snd (scan_cell self vars cell)) = Some (title t)"
proof -
  obtain n b c where v: "vars = (n, b, c)" by (cases vars) auto
  from assms(1,3) have "scan_cell self vars cell = scan_text (Some t) vars"
    by (auto simp: scan_cell_def Let_def split: option.splits simp del: scan_text.simps)
  with v scan_text_stores[OF assms(2), of n b c] show ?thesis
    by (simp del: scan_text.simps)
qed

lemma scan_cells_stores:
  assumes "clean_text self (Some (get_text (fst cell))) = Some t"
    and "title t \<in> set row_cities"
    and "find_tag [''a''] cell = None \<or> truthy (fst (scan_cells self pre))"
    and "\<forall>c \<in> set post. \<not> offers_city self c"
  shows "snd (snd (scan_cells self (pre @ cell # post))) = Some (title t)"
proof -
  let ?v = "foldl (scan_cell self) (None, None, None) pre"
  from assms(3) have "find_tag [''a''] cell = None \<or> truthy (fst ?v)"
    by (simp add: scan_cells_def)
  from scan_cell_stores[OF assms(1,2) this]
  have "snd (snd (scan_cell self ?v cell)) = Some (title t)" .
  with scan_cells_city[OF assms(4), of "scan_cell self ?v cell"]
  show ?thesis by (simp add: scan_cells_def)
qed

text \<open>
  C8, as the code has it. For a row, the city of the record is the text, in title case,
  of the last cell whose cleaned text in title case is one of the five cities of the
  row allowlist, when that cell is read for its text (it has no link, or the name was
  set by a cell before it); a city that is stored is always such a text, and when no
  cell offers one the city is null. For another block, the city is the title case of
  the leftmost match of the six-city pattern in the text of the block, and null when
  the pattern does not match. Text that matches no allowlist is dropped.
\<close>

theorem city_allowlist:
  assumes "parse_result self el = Some a"
  shows "(tag_name (fst el) = Some ''tr'' \<longrightarrow>
        (find_all [''td''] el = pre @ cell # post \<and>
         clean_text self (Some (get_text (fst cell))) = Some t \<and>
         title t \<in> set row_cities \<and>
         (find_tag [''a''] cell = None \<or> truthy (fst (scan_cells self pre))) \<and>
         (\<forall>c \<in> set post. \<not> offers_city self c) \<longrightarrow> city a = Some (title t)) \<and>
        (\<forall>c. city a = Some c \<longrightarrow> c \<in> set row_cities \<and>
           (\<exists>cell \<in> set (find_all [''td''] el). \<exists>t.
              clean_text self (Some (get_text (fst cell))) = Some t \<and> c = title t)) \<and>
        ((\<forall>cell \<in> set (find_all [''td''] el). \<not> offers_city self cell) \<longrightarrow> city a = None)) \<and>
     (tag_name (fst el) \<noteq> Some ''tr'' \<longrightarrow>
        city a = map_option title (search_city (get_text (fst el))))"
proof (cases "tag_name (fst el) = Some ''tr''")
  case True
  with assms have row: "parse_table_row self el = Some a"
    by (simp add: parse_result_def)
  obtain n b c where sc: "scan_cells self (find_all [''td''] el) = (n, b, c)"
    by (cases "scan_cells self (find_all [''td''] el)") auto
  from row sc have a: "city a = c"
    by (auto simp: parse_table_row_def Let_def split: if_splits option.splits prod.splits)
  have c: "(\<forall>cell \<in> set (find_all [''td''] el). \<not> offers_city self cell) \<longrightarrow> c = None"
    using scan_cells_city[of "find_all [''td''] el" self "(None, None, None)"] sc
    by (auto simp: scan_cells_def)
  have d: "\<forall>x. c = Some x \<longrightarrow> x \<in> set row_cities \<and>
           (\<exists>cell \<in> set (find_all [''td''] el). \<exists>t.
              clean_text self (Some (get_text (fst cell))) = Some t \<and> x = title t)"
    using scan_cells_city_from[of self "(None, None, None)" "find_all [''td''] el"] sc
    by (fastforce simp: scan_cells_def)
  have e: "find_all [''td''] el = pre @ cell # post \<and>
         clean_text self (Some (get_text (fst cell))) = Some t \<and>
         title t \<in> set row_cities \<and>
         (find_tag [''a''] cell = None \<or> truthy (fst (scan_cells self pre))) \<and>
         (\<forall>c \<in> set post. \<not> offers_city self c) \<longrightarrow> c = Some (title t)"
  proof
    assume h: "find_all [''td''] el = pre @ cell # post \<and>
         clean_text self (Some (get_text (fst cell))) = Some t \<and>
         title t \<in> set row_cities \<and>
         (find_tag [''a''] cell = None \<or> truthy (fst (scan_cells self pre))) \<and>
         (\<forall>c \<in> set post. \<not> offers_city self c)"
    then have "snd (snd (scan_cells self (pre @ cell # post))) = Some (title t)"
      by (intro scan_cells_stores) blast+
    with h sc show "c = Some (title t)" by simp
  qed
  from True a c d e show ?thesis by simp
next
  case False
  with assms have "parse_div_result self el = Some a"
    by (simp add: parse_result_def)
  then have "city a = map_option title (search_city (get_text (fst el)))"
    by (auto simp: parse_div_result_def Let_def split: if_splits option.splits prod.splits)
  with False show ?thesis by simp
qed

theorem city_allowlist_witness:
  "parse_result (spec_scraper offline) houston_row =
     Some \<lparr>bar_number = None, full_name = Some ''John Smith'', first_name = Some ''John'',
           last_name = Some ''Smith'', status = Some ''Active'', city = Some ''Houston'',
           firm_name = None, practice_areas = []\<rparr> \<and>
   tag_name (fst houston_row) = Some ''tr'' \<and>
   find_all [''td''] houston_row =
     take 1 (find_all [''td''] houston_row) @
       (find_all [''td''] houston_row ! 1) # drop 2 (find_all [''td''] houston_row) \<and>
   spec_clean_text (Some (get_text (fst (find_all [''td''] houston_row ! 1)))) = Some ''houston'' \<and>
   title ''houston'' = ''Houston'' \<and> ''Houston'' \<in> set row_cities \<and>
   find_tag [''a''] (find_all [''td''] houston_row ! 1) = None \<and>
   list_all (\<lambda>c. \<not> offers_city (spec_scraper offline) c) (drop 2 (find_all [''td''] houston_row)) \<and>
   parse_result (spec_scraper offline) waco_row =
     Some \<lparr>bar_number = None, full_name = Some ''John Smith'', first_name = Some ''John'',
           last_name = Some ''Smith'', status = Some ''Active'', city = None,
           firm_name = None, practice_areas = []\<rparr> \<and>
   tag_name (fst waco_row) = Some ''tr'' \<and>
   list_all (\<lambda>cell. \<not> offers_city (spec_scraper offline) cell) (find_all [''td''] waco_row) \<and>
   parse_result (spec_scraper offline) houston_div =
     Some \<lparr>bar_number = Some ''87654321'', full_name = Some ''Jane Q Doe'',
           first_name = Some ''Jane'', last_name = Some ''Q Doe'', status = Some ''Active'',
           city = Some ''Houston'', firm_name = Some ''Doe LLP'', practice_areas = []\<rparr> \<and>
   tag_name (fst houston_div) \<noteq> Some ''tr'' \<and>
   search_city (get_text (fst houston_div)) = Some ''hOUSTON'' \<and>
   title ''hOUSTON'' = ''Houston''"
proof -
  let ?cells = "find_all [''td''] houston_row"
  have r: "parse_result (spec_scraper offline) houston_row =
     Some \<lparr>bar_number = None, full_name = Some ''John Smith'', first_name = Some ''John'',
           last_name = Some ''Smith'', status = Some ''Active'', city = Some ''Houston'',
           firm_name = None, practice_areas = []\<rparr>"
    and r': "tag_name (fst houston_row) = Some ''tr''"
      "?cells = take 1 ?cells @ (?cells ! 1) # drop 2 ?cells"
      "clean_text (spec_scraper offline) (Some (get_text (fst (?cells ! 1)))) = Some ''houston''"
      "spec_clean_text (Some (get_text (fst (?cells ! 1)))) = Some ''houston''"
      "title ''houston'' = ''Houston''" "''Houston'' \<in> set row_cities"
      "find_tag [''a''] (?cells ! 1) = None"
      "list_all (\<lambda>c. \<not> offers_city (spec_scraper offline) c) (drop 2 ?cells)"
    by code_simp+
  have k: "parse_result (spec_scraper offline) waco_row =
     Some \<lparr>bar_number = None, full_name = Some ''John Smith'', first_name = Some ''John'',
           last_name = Some ''Smith'', status = Some ''Active'', city = None,
           firm_name = None, practice_areas = []\<rparr>"
    and k': "tag_name (fst waco_row) = Some ''tr''"
     "list_all (\<lambda>cell. \<not> offers_city (spec_scraper offline) cell) (find_all [''td''] waco_row)"
    by code_simp+
  have h: "parse_result (spec_scraper offline) houston_div =
     Some \<lparr>bar_number = Some ''87654321'', full_name = Some ''Jane Q Doe'',
           first_name = Some ''Jane'', last_name = Some ''Q Doe'', status = Some ''Active'',
           city = Some ''Houston'', firm_name = Some ''Doe LLP'', practice_areas = []\<rparr>"
    and h': "tag_name (fst houston_div) \<noteq> Some ''tr''"
      "search_city (get_text (fst houston_div)) = Some ''hOUSTON''"
    by code_simp+
  from r' have t: "title ''houston'' \<in> set row_cities"
    by simp
  from city_allowlist[OF r, of "take 1 ?cells" "?cells ! 1" "drop 2 ?cells" "''houston''"]
    r' t
  have 1: "city \<lparr>bar_number = None, full_name = Some ''John Smith'', first_name = Some ''John'',
           last_name = Some ''Smith'', status = Some ''Active'', city = Some ''Houston'',
           firm_name = None, practice_areas = []\<rparr> = Some (title ''houston'')"
    by (simp add: list_all_iff)
  from city_allowlist[OF k] k'
  have 2: "city \<lparr>bar_number = None, full_name = Some ''John Smith'', first_name = Some ''John'',
           last_name = Some ''Smith'', status = Some ''Active'', city = None,
           firm_name = None, practice_areas = []\<rparr> = None"
    by simp
  from city_allowlist[OF h] h'
  have 3: "title ''hOUSTON'' = ''Houston''"
    by auto
  from r r' k k' h h' 3 show ?thesis by simp
qed

text \<open>
  C8 as stated fails: the second cell of this row reads \<^verbatim>\<open>Waco\<close>, the record is
  produced, and its city is null.
\<close>

theorem unmatched_city_discarded:
  "map_option city (parse_result (spec_scraper offline) waco_row) = Some None \<and>
   map (\<lambda>cell. get_text (fst cell)) (find_all [''td''] waco_row) = [''John Smith'', ''Waco'']"
  by code_simp

section \<open>Pagination\<close>









section \<open>The store\<close>

lemma foldr_max_ge: "x \<in> set xs \<Longrightarrow> x \<le> foldr max xs (s::nat)"
  by (induction xs) (auto simp: max_def)

lemma next_rowid_fresh: "next_rowid s xs \<notin> set xs"
  using foldr_max_ge[of "next_rowid s xs" xs s] by (auto simp: next_rowid_def)

lemma next_rowid_fresh_image: "next_rowid s (map f xs) \<notin> f ` set xs"
  using next_rowid_fresh[of s "map f xs"] by simp

lemma attorneys_insert_practice_area [simp]:
  "attorneys (insert_practice_area conn aid area prim) = attorneys conn"
  by (simp add: insert_practice_area_def Let_def)

lemma attorneys_insert_areas [simp]:
  "attorneys (snd (insert_areas conn aid i as)) = attorneys conn"
  by (induction conn aid i as rule: insert_areas.induct) (auto split: outcome.splits)

lemma attorneys_insert_areas_eq:
  "insert_areas conn aid i as = (r, conn') \<Longrightarrow> attorneys conn' = attorneys conn"
  using attorneys_insert_areas[of conn aid i as] by simp

lemma attorneys_insert_attorney:
  "attorneys (snd (insert_attorney conn d)) = attorneys (snd (upsert_attorney conn (entry d)))"
  by (auto simp: insert_attorney_def insert_attorney_body_def Let_def
        split: prod.splits outcome.splits option.splits dest: attorneys_insert_areas_eq)

lemma upsert_insert_path:
  assumes "d ''state'' = Some st" "d ''full_name'' = Some nm"
    and "\<not> list_ex (conflicts (d ''bar_number'') st) (attorneys conn)"
  shows "upsert_attorney conn d =
     (Returns (),
      conn\<lparr>attorneys := attorneys conn @
               [new_row (next_rowid (attorneys_seq conn) (map a_id (attorneys conn))) st nm d],
            attorneys_seq := next_rowid (attorneys_seq conn) (map a_id (attorneys conn)),
            last_insert_rowid := next_rowid (attorneys_seq conn) (map a_id (attorneys conn))\<rparr>)"
  using assms by (simp add: upsert_attorney_def Let_def)

lemma upsert_update_path:
  assumes "d ''state'' = Some st" "d ''full_name'' = Some nm"
    and "list_ex (conflicts (d ''bar_number'') st) (attorneys conn)"
  shows "upsert_attorney conn d =
     (Returns (),
      conn\<lparr>attorneys := map (\<lambda>r. if conflicts (d ''bar_number'') st r
                                   then update_row nm d r else r) (attorneys conn),
            attorneys_seq := next_rowid (attorneys_seq conn) (map a_id (attorneys conn))\<rparr>)"
  using assms by (simp add: upsert_attorney_def Let_def)

lemma update_row_keeps [simp]:
  "a_id (update_row nm d r) = a_id r"
  "a_bar_number (update_row nm d r) = a_bar_number r"
  "a_state (update_row nm d r) = a_state r"
  by (simp_all add: update_row_def)

lemma new_row_sel [simp]:
  "a_id (new_row i st nm d) = i"
  "a_bar_number (new_row i st nm d) = d ''bar_number''"
  "a_state (new_row i st nm d) = st"
  by (simp_all add: new_row_def)

lemma keys_after_update:
  "concat (map ((\<lambda>r. case a_bar_number r of Some b \<Rightarrow> [(b, a_state r)] | None \<Rightarrow> []) \<circ>
                (\<lambda>r. if P r then update_row nm d r else r)) rs) =
   concat (map (\<lambda>r. case a_bar_number r of Some b \<Rightarrow> [(b, a_state r)] | None \<Rightarrow> []) rs)"
  by (induction rs) (auto split: option.splits)

lemma ids_after_update:
  "map (a_id \<circ> (\<lambda>r. if P r then update_row nm d r else r)) rs = map a_id rs"
  by (induction rs) auto

lemma length_filter_key:
  "length (filter (\<lambda>r. a_bar_number r = Some b \<and> a_state r = st) rs) =
   count_list (concat (map (\<lambda>r. case a_bar_number r of Some b \<Rightarrow> [(b, a_state r)] | None \<Rightarrow> []) rs))
     (b, st)"
  by (induction rs) (auto split: option.splits)

lemma length_rows_with_key:
  "length (rows_with_key conn b st) = count_list (attorney_keys conn) (b, st)"
  by (simp add: rows_with_key_def attorney_keys_def length_filter_key)

lemma conflict_iff_key:
  "list_ex (conflicts (Some b) st) rs \<longleftrightarrow>
   (b, st) \<in> set (concat (map (\<lambda>r. case a_bar_number r of Some b \<Rightarrow> [(b, a_state r)] | None \<Rightarrow> []) rs))"
  by (induction rs) (auto simp: conflicts_def split: option.splits)

lemma no_conflict_null: "\<not> list_ex (conflicts None st) rs"
  by (simp add: conflicts_def list_ex_iff)

lemma distinct_count_one:
  "distinct xs \<Longrightarrow> x \<in> set xs \<Longrightarrow> count_list xs x = 1"
  by (induction xs) (auto simp: count_list_0_iff)

text \<open>After the statement has run on a record with a bar number, its key is stored
  exactly once, and the constraints still hold.\<close>

lemma upsert_keys:
  assumes "distinct (attorney_keys conn)"
    and "d ''state'' = Some st" "d ''full_name'' = Some nm" "d ''bar_number'' = Some b"
  shows "distinct (attorney_keys (snd (upsert_attorney conn d))) \<and>
         (b, st) \<in> set (attorney_keys (snd (upsert_attorney conn d)))"
proof (cases "list_ex (conflicts (d ''bar_number'') st) (attorneys conn)")
  case True
  with assms show ?thesis
    by (simp add: upsert_update_path attorney_keys_def keys_after_update conflict_iff_key)
next
  case False
  with assms show ?thesis
    by (simp add: upsert_insert_path attorney_keys_def conflict_iff_key)
qed

lemma upsert_null_keys:
  assumes "distinct (attorney_keys conn)"
    and "d ''state'' = Some st" "d ''full_name'' = Some nm" "d ''bar_number'' = None"
  shows "distinct (attorney_keys (snd (upsert_attorney conn d)))"
  using assms by (simp add: upsert_insert_path no_conflict_null attorney_keys_def)

lemma upsert_ids_distinct:
  assumes "distinct (map a_id (attorneys conn))"
    and "d ''state'' = Some st" "d ''full_name'' = Some nm"
  shows "distinct (map a_id (attorneys (snd (upsert_attorney conn d))))"
proof (cases "list_ex (conflicts (d ''bar_number'') st) (attorneys conn)")
  case True
  with assms show ?thesis by (simp add: upsert_update_path ids_after_update)
next
  case False
  with assms show ?thesis by (simp add: upsert_insert_path next_rowid_fresh_image)
qed

lemma upsert_existing_key:
  assumes "d ''state'' = Some st" "d ''full_name'' = Some nm" "d ''bar_number'' = Some b"
    and "(b, st) \<in> set (attorney_keys conn)"
  shows "map a_id (attorneys (snd (upsert_attorney conn d))) = map a_id (attorneys conn)"
  using assms
  by (simp add: upsert_update_path ids_after_update conflict_iff_key attorney_keys_def)


lemma rows_with_key_empty:
  "rows_with_key conn b st = [] \<longleftrightarrow> \<not> list_ex (conflicts (Some b) st) (attorneys conn)"
  by (auto simp: rows_with_key_def conflicts_def list_ex_iff filter_empty_conv)

lemma insert_areas_text:
  "list_all text_or_falsy as \<Longrightarrow> fst (insert_areas conn aid i as) = Returns ()"
proof (induction conn aid i as rule: insert_areas.induct)
  case (1 conn aid i)
  then show ?case by simp
next
  case (2 conn aid i area rest)
  then show ?case by (cases area) auto
qed

lemma insert_attorney_insert_path:
  assumes "entry d ''state'' = Some st" "entry d ''full_name'' = Some nm"
    and "\<not> list_ex (conflicts (entry d ''bar_number'') st) (attorneys conn)"
  shows "attorneys (snd (insert_attorney conn d)) =
           attorneys conn @
             [new_row (next_rowid (attorneys_seq conn) (map a_id (attorneys conn))) st nm (entry d)]"
    and "areas_raise_nothing d \<Longrightarrow>
         fst (insert_attorney conn d) =
           Returns (Some (next_rowid (attorneys_seq conn) (map a_id (attorneys conn))))"
proof -
  show "attorneys (snd (insert_attorney conn d)) =
           attorneys conn @
             [new_row (next_rowid (attorneys_seq conn) (map a_id (attorneys conn))) st nm (entry d)]"
    using assms by (simp add: attorneys_insert_attorney upsert_insert_path)
  assume "areas_raise_nothing d"
  then obtain l where l: "get_practice_areas d = Some l" and t: "list_all text_or_falsy l"
    by (auto simp: areas_raise_nothing_def split: option.splits)
  let ?c1 = "snd (upsert_attorney conn (entry d))"
  obtain r c2 where ia: "insert_areas ?c1 (last_insert_rowid ?c1) 0 l = (r, c2)"
    by (cases "insert_areas ?c1 (last_insert_rowid ?c1) 0 l") auto
  with insert_areas_text[OF t, of ?c1 "last_insert_rowid ?c1" 0] have "r = Returns ()"
    by simp
  with ia l assms show "fst (insert_attorney conn d) =
           Returns (Some (next_rowid (attorneys_seq conn) (map a_id (attorneys conn))))"
    by (simp add: insert_attorney_def insert_attorney_body_def upsert_insert_path Let_def)
qed

lemma insert_attorney_rejects:
  "entry d ''state'' = None \<or> entry d ''full_name'' = None \<Longrightarrow>
     insert_attorney conn d = (Returns None, conn)"
  by (auto simp: insert_attorney_def insert_attorney_body_def upsert_attorney_def
        split: option.splits)

lemma practice_present_iff:
  "list_ex (\<lambda>p. p_attorney_id p = aid \<and> p_practice_area p = area) (practice_area_rows conn) \<longleftrightarrow>
   (aid, area) \<in> set (practice_keys conn)"
  by (auto simp: practice_keys_def list_ex_iff)

lemma insert_practice_area_present:
  "(aid, area) \<in> set (practice_keys conn) \<Longrightarrow>
     practice_area_rows (insert_practice_area conn aid area prim) = practice_area_rows conn"
  by (simp add: insert_practice_area_def Let_def practice_present_iff)

lemma insert_practice_area_absent:
  "(aid, area) \<notin> set (practice_keys conn) \<Longrightarrow>
     practice_area_rows (insert_practice_area conn aid area prim) =
       practice_area_rows conn @
         [\<lparr>p_id = next_rowid (practice_areas_seq conn) (map p_id (practice_area_rows conn)),
           p_attorney_id = aid, p_practice_area = area, p_is_primary = prim\<rparr>]"
  by (simp add: insert_practice_area_def Let_def practice_present_iff)

lemma practice_keys_insert:
  "practice_keys (insert_practice_area conn aid area prim) =
     (if (aid, area) \<in> set (practice_keys conn) then practice_keys conn
      else practice_keys conn @ [(aid, area)])"
proof (cases "(aid, area) \<in> set (practice_keys conn)")
  case True
  from insert_practice_area_present[OF True, of prim] True show ?thesis
    by (simp add: practice_keys_def)
next
  case False
  from insert_practice_area_absent[OF False, of prim] False show ?thesis
    by (simp add: practice_keys_def)
qed

lemma areas_of_insert:
  "(aid, area) \<notin> set (practice_keys conn) \<Longrightarrow>
     areas_of (insert_practice_area conn aid area prim) aid = areas_of conn aid @ [(area, prim)]"
  by (simp add: areas_of_def insert_practice_area_absent)

lemma distinct_keys_insert:
  "distinct (practice_keys conn) \<Longrightarrow>
     distinct (practice_keys (insert_practice_area conn aid area prim))"
  by (simp add: practice_keys_insert)

lemma distinct_keys_insert_areas:
  "distinct (practice_keys conn) \<Longrightarrow>
     distinct (practice_keys (snd (insert_areas conn aid i as)))"
  by (induction conn aid i as rule: insert_areas.induct)
     (auto simp: distinct_keys_insert split: outcome.splits)

lemma practice_rows_upsert:
  "practice_area_rows (snd (upsert_attorney conn d)) = practice_area_rows conn"
  by (auto simp: upsert_attorney_def Let_def split: option.splits)

lemma upsert_raises: "upsert_attorney conn d = (Raises e, c) \<Longrightarrow> c = conn"
  by (auto simp: upsert_attorney_def Let_def split: option.splits if_splits)

lemma practice_rows_insert_attorney:
  "(\<exists>l. practice_area_rows (snd (insert_attorney conn d)) =
     practice_area_rows
       (snd (insert_areas (snd (upsert_attorney conn (entry d)))
               (last_insert_rowid (snd (upsert_attorney conn (entry d)))) 0 l)))
   \<or> practice_area_rows (snd (insert_attorney conn d)) = practice_area_rows conn"
proof (cases "upsert_attorney conn (entry d)")
  case (Pair r c1)
  show ?thesis
  proof (cases r)
    case (Raises e)
    with Pair upsert_raises[of conn "entry d" e c1] show ?thesis
      by (simp add: insert_attorney_def insert_attorney_body_def)
  next
    case (Returns u)
    show ?thesis
    proof (cases "get_practice_areas d")
      case None
      with Pair Returns practice_rows_upsert[of conn "entry d"] show ?thesis
        by (simp add: insert_attorney_def insert_attorney_body_def)
    next
      case (Some l)
      with Pair Returns have "practice_area_rows (snd (insert_attorney conn d)) =
          practice_area_rows (snd (insert_areas c1 (last_insert_rowid c1) 0 l))"
        by (auto simp: insert_attorney_def insert_attorney_body_def Let_def
              split: prod.splits outcome.splits)
      with Pair show ?thesis by auto
    qed
  qed
qed

lemma distinct_keys_insert_attorney:
  assumes "distinct (practice_keys conn)"
  shows "distinct (practice_keys (snd (insert_attorney conn d)))"
proof -
  let ?c1 = "snd (upsert_attorney conn (entry d))"
  have "distinct (practice_keys ?c1)"
    using assms by (simp add: practice_keys_def practice_rows_upsert)
  then have "\<And>l. distinct (practice_keys (snd (insert_areas ?c1 (last_insert_rowid ?c1) 0 l)))"
    by (rule distinct_keys_insert_areas)
  with practice_rows_insert_attorney[of conn d] assms
  show ?thesis by (auto simp: practice_keys_def)
qed

text \<open>The loop on a list of non-empty strings that strip to distinct areas, none of
  them stored yet for the identity, from an index after the first.\<close>

lemma insert_areas_later:
  assumes "0 < i" "\<forall>x \<in> set ss. x \<noteq> []" "distinct (map strip ss)"
    and "\<forall>x \<in> set ss. (aid, strip x) \<notin> set (practice_keys conn)"
  shows "fst (insert_areas conn aid i (map PyStr ss)) = Returns () \<and>
         areas_of (snd (insert_areas conn aid i (map PyStr ss))) aid =
           areas_of conn aid @ map (\<lambda>x. (strip x, False)) ss"
  using assms
proof (induction ss arbitrary: conn i)
  case Nil
  then show ?case by simp
next
  case (Cons s ss)
  let ?c = "insert_practice_area conn aid (strip s) (i = 0)"
  have fresh: "(aid, strip s) \<notin> set (practice_keys conn)"
    using Cons.prems by simp
  have "\<forall>x \<in> set ss. (aid, strip x) \<notin> set (practice_keys ?c)"
    using Cons.prems by (auto simp: practice_keys_insert image_iff)
  with Cons.prems have IH: "fst (insert_areas ?c aid (Suc i) (map PyStr ss)) = Returns () \<and>
         areas_of (snd (insert_areas ?c aid (Suc i) (map PyStr ss))) aid =
           areas_of ?c aid @ map (\<lambda>x. (strip x, False)) ss"
    by (intro Cons.IH) auto
  from Cons.prems IH fresh show ?case
    by (simp add: areas_of_insert)
qed

lemma insert_areas_first:
  assumes "\<forall>x \<in> set (s # ss). x \<noteq> []" "distinct (map strip (s # ss))"
    and "\<forall>x \<in> set (s # ss). (aid, strip x) \<notin> set (practice_keys conn)"
  shows "fst (insert_areas conn aid 0 (map PyStr (s # ss))) = Returns () \<and>
         areas_of (snd (insert_areas conn aid 0 (map PyStr (s # ss)))) aid =
           areas_of conn aid @ (strip s, True) # map (\<lambda>x. (strip x, False)) ss"
proof -
  let ?c = "insert_practice_area conn aid (strip s) True"
  have fresh: "(aid, strip s) \<notin> set (practice_keys conn)"
    using assms by simp
  have "\<forall>x \<in> set ss. (aid, strip x) \<notin> set (practice_keys ?c)"
    using assms by (auto simp: practice_keys_insert image_iff)
  with assms have "fst (insert_areas ?c aid (Suc 0) (map PyStr ss)) = Returns () \<and>
         areas_of (snd (insert_areas ?c aid (Suc 0) (map PyStr ss))) aid =
           areas_of ?c aid @ map (\<lambda>x. (strip x, False)) ss"
    by (intro insert_areas_later) auto
  with assms fresh show ?thesis
    by (simp add: areas_of_insert)
qed

lemma areas_of_empty:
  "aid \<notin> set (map p_attorney_id (practice_area_rows conn)) \<Longrightarrow> areas_of conn aid = []"
  by (auto simp: areas_of_def filter_empty_conv)

lemma keys_absent:
  "aid \<notin> set (map p_attorney_id (practice_area_rows conn)) \<Longrightarrow>
     (aid, a) \<notin> set (practice_keys conn)"
  by (auto simp: practice_keys_def)

lemma rows_after_update:
  "filter (\<lambda>r. a_bar_number r = Some b \<and> a_state r = st)
     (map (\<lambda>r. if conflicts (Some b) st r then update_row nm d r else r) rs) =
   map (update_row nm d) (filter (\<lambda>r. a_bar_number r = Some b \<and> a_state r = st) rs)"
  by (induction rs) (auto simp: conflicts_def)

text \<open>
  C2, as the code has it. On a connection that satisfies the constraints of the schema,
  for records whose \<^verbatim>\<open>state\<close> and \<^verbatim>\<open>full_name\<close> are not null: after two calls with
  the same non-null bar number and state, exactly one row is stored under that key, the
  second call adds no row, and it overwrites in the row stored by the first the eleven
  columns of the \<^verbatim>\<open>SET\<close> clause with the values of the second record, leaving the
  identity and the other columns. A call for a record without bar number, or with a
  key that is not stored yet, appends a row under an identity that no stored row has,
  and returns that identity when its practice areas are absent or a list of strings
  and skipped values. A record whose \<^verbatim>\<open>state\<close> or \<^verbatim>\<open>full_name\<close> is null is rejected:
  \<^verbatim>\<open>None\<close> is returned and the connection is as before. What a call returns when it
  updates a stored row is not part of the statement.
\<close>

theorem upsert_on_natural_key:
  "(schema_ok conn \<and> entry d ''state'' = Some st \<and> entry d ''full_name'' = Some nm \<and>
    entry d' ''state'' = Some st \<and> entry d' ''full_name'' = Some nm' \<and>
    entry d ''bar_number'' = Some b \<and> entry d' ''bar_number'' = Some b \<longrightarrow>
      length (rows_with_key (snd (insert_attorney (snd (insert_attorney conn d)) d')) b st) = 1 \<and>
      map a_id (attorneys (snd (insert_attorney (snd (insert_attorney conn d)) d'))) =
        map a_id (attorneys (snd (insert_attorney conn d))) \<and>
      rows_with_key (snd (insert_attorney (snd (insert_attorney conn d)) d')) b st =
        map (\<lambda>r. r\<lparr>a_first_name := entry d' ''first_name'',
                    a_last_name := entry d' ''last_name'', a_full_name := nm',
                    a_status := entry d' ''status'', a_firm_name := entry d' ''firm_name'',
                    a_city := entry d' ''city'', a_county := entry d' ''county'',
                    a_address := entry d' ''address'', a_email := entry d' ''email'',
                    a_phone := entry d' ''phone'', a_website := entry d' ''website''\<rparr>)
          (rows_with_key (snd (insert_attorney conn d)) b st)) \<and>
   (entry d ''state'' = Some st \<and> entry d ''full_name'' = Some nm \<and>
    (entry d ''bar_number'' = None \<or>
     entry d ''bar_number'' = Some b \<and> rows_with_key conn b st = []) \<longrightarrow>
      attorneys (snd (insert_attorney conn d)) =
        attorneys conn @
          [new_row (next_rowid (attorneys_seq conn) (map a_id (attorneys conn))) st nm (entry d)] \<and>
      next_rowid (attorneys_seq conn) (map a_id (attorneys conn)) \<notin> set (map a_id (attorneys conn)) \<and>
      (areas_raise_nothing d \<longrightarrow>
         fst (insert_attorney conn d) =
           Returns (Some (next_rowid (attorneys_seq conn) (map a_id (attorneys conn)))))) \<and>
   (entry d ''state'' = None \<or> entry d ''full_name'' = None \<longrightarrow>
      insert_attorney conn d = (Returns None, conn))"
proof (intro conjI impI)
  assume a: "schema_ok conn \<and> entry d ''state'' = Some st \<and> entry d ''full_name'' = Some nm \<and>
    entry d' ''state'' = Some st \<and> entry d' ''full_name'' = Some nm' \<and>
    entry d ''bar_number'' = Some b \<and> entry d' ''bar_number'' = Some b"
  let ?c1 = "snd (insert_attorney conn d)"
  let ?c2 = "snd (insert_attorney ?c1 d')"
  from a have k0: "distinct (attorney_keys conn)" by (simp add: schema_ok_def)
  have att1: "attorneys ?c1 = attorneys (snd (upsert_attorney conn (entry d)))"
    by (rule attorneys_insert_attorney)
  have keys1: "attorney_keys ?c1 = attorney_keys (snd (upsert_attorney conn (entry d)))"
    by (simp add: attorney_keys_def att1)
  from upsert_keys[OF k0, of "entry d" st nm b] a keys1
  have k1: "distinct (attorney_keys ?c1)" "(b, st) \<in> set (attorney_keys ?c1)"
    by simp_all
  have att2: "attorneys ?c2 = attorneys (snd (upsert_attorney ?c1 (entry d')))"
    by (rule attorneys_insert_attorney)
  have keys2: "attorney_keys ?c2 = attorney_keys (snd (upsert_attorney ?c1 (entry d')))"
    by (simp add: attorney_keys_def att2)
  from upsert_keys[OF k1(1), of "entry d'" st nm' b] a keys2
  have k2: "distinct (attorney_keys ?c2)" "(b, st) \<in> set (attorney_keys ?c2)"
    by simp_all
  show "length (rows_with_key ?c2 b st) = 1"
    using k2 by (simp add: length_rows_with_key distinct_count_one)
  show "map a_id (attorneys ?c2) = map a_id (attorneys ?c1)"
    using upsert_existing_key[of "entry d'" st nm' b ?c1] a k1(2) att2 by simp
  from k1(2) have cf: "list_ex (conflicts (entry d' ''bar_number'') st) (attorneys ?c1)"
    using a by (simp add: conflict_iff_key attorney_keys_def)
  from a cf have "attorneys ?c2 =
      map (\<lambda>r. if conflicts (Some b) st r then update_row nm' (entry d') r else r) (attorneys ?c1)"
    by (simp add: att2 upsert_update_path)
  then have "rows_with_key ?c2 b st = map (update_row nm' (entry d')) (rows_with_key ?c1 b st)"
    by (simp only: rows_with_key_def rows_after_update)
  then show "rows_with_key ?c2 b st =
        map (\<lambda>r. r\<lparr>a_first_name := entry d' ''first_name'',
                    a_last_name := entry d' ''last_name'', a_full_name := nm',
                    a_status := entry d' ''status'', a_firm_name := entry d' ''firm_name'',
                    a_city := entry d' ''city'', a_county := entry d' ''county'',
                    a_address := entry d' ''address'', a_email := entry d' ''email'',
                    a_phone := entry d' ''phone'', a_website := entry d' ''website''\<rparr>)
          (rows_with_key ?c1 b st)"
    by (simp add: update_row_def)
next
  assume a: "entry d ''state'' = Some st \<and> entry d ''full_name'' = Some nm \<and>
    (entry d ''bar_number'' = None \<or>
     entry d ''bar_number'' = Some b \<and> rows_with_key conn b st = [])"
  then have nc: "\<not> list_ex (conflicts (entry d ''bar_number'') st) (attorneys conn)"
    by (auto simp: no_conflict_null rows_with_key_empty)
  from a nc show "attorneys (snd (insert_attorney conn d)) =
        attorneys conn @
          [new_row (next_rowid (attorneys_seq conn) (map a_id (attorneys conn))) st nm (entry d)]"
    by (simp add: insert_attorney_insert_path(1))
  show "next_rowid (attorneys_seq conn) (map a_id (attorneys conn)) \<notin> set (map a_id (attorneys conn))"
    by (rule next_rowid_fresh)
  assume "areas_raise_nothing d"
  with a nc show "fst (insert_attorney conn d) =
           Returns (Some (next_rowid (attorneys_seq conn) (map a_id (attorneys conn))))"
    by (simp add: insert_attorney_insert_path(2))
next
  assume "entry d ''state'' = None \<or> entry d ''full_name'' = None"
  then show "insert_attorney conn d = (Returns None, conn)"
    by (rule insert_attorney_rejects)
qed

theorem upsert_on_natural_key_witness:
  "schema_ok empty_connection \<and>
   entry smith ''state'' = Some ''TX'' \<and> entry smith ''full_name'' = Some ''John Smith'' \<and>
   entry smith ''bar_number'' = Some ''12345678'' \<and>
   entry smith_moved ''state'' = Some ''TX'' \<and>
   entry smith_moved ''full_name'' = Some ''John Smith'' \<and>
   entry smith_moved ''bar_number'' = Some ''12345678'' \<and>
   length (rows_with_key (snd (insert_attorney (snd (insert_attorney empty_connection smith))
                                 smith_moved)) ''12345678'' ''TX'') = 1 \<and>
   map a_id (attorneys (snd (insert_attorney (snd (insert_attorney empty_connection smith))
                               smith_moved))) =
     map a_id (attorneys (snd (insert_attorney empty_connection smith))) \<and>
   map a_city (rows_with_key (snd (insert_attorney empty_connection smith)) ''12345678'' ''TX'') =
     [Some ''Austin''] \<and>
   map (\<lambda>r. (a_id r, a_city r, a_law_school r))
     (rows_with_key (snd (insert_attorney (snd (insert_attorney empty_connection smith))
                            smith_moved)) ''12345678'' ''TX'') =
     [(1, Some ''Dallas'', None)] \<and>
   entry smith_unnumbered ''state'' = Some ''TX'' \<and>
   entry smith_unnumbered ''full_name'' = Some ''John Smith'' \<and>
   entry smith_unnumbered ''bar_number'' = None \<and>
   areas_raise_nothing smith_unnumbered \<and>
   next_rowid (attorneys_seq empty_connection) (map a_id (attorneys empty_connection)) = 1 \<and>
   attorneys (snd (insert_attorney empty_connection smith_unnumbered)) =
     attorneys empty_connection @ [new_row 1 ''TX'' ''John Smith'' (entry smith_unnumbered)] \<and>
   fst (insert_attorney empty_connection smith_unnumbered) = Returns (Some 1) \<and>
   entry smith_unnamed ''full_name'' = None \<and>
   insert_attorney empty_connection smith_unnamed = (Returns None, empty_connection)"
proof -
  have a: "schema_ok empty_connection"
    "entry smith ''state'' = Some ''TX''" "entry smith ''full_name'' = Some ''John Smith''"
    "entry smith ''bar_number'' = Some ''12345678''"
    "entry smith_moved ''state'' = Some ''TX''"
    "entry smith_moved ''full_name'' = Some ''John Smith''"
    "entry smith_moved ''bar_number'' = Some ''12345678''"
    by code_simp+
  have m: "entry smith_moved ''city'' = Some ''Dallas''"
    and r1: "map (\<lambda>r. (a_id r, a_city r, a_law_school r))
        (rows_with_key (snd (insert_attorney empty_connection smith)) ''12345678'' ''TX'') =
        [(1, Some ''Austin'', None)]"
    by code_simp+
  have b: "entry smith_unnumbered ''state'' = Some ''TX''"
    "entry smith_unnumbered ''full_name'' = Some ''John Smith''"
    "entry smith_unnumbered ''bar_number'' = None"
    "areas_raise_nothing smith_unnumbered"
    "next_rowid (attorneys_seq empty_connection) (map a_id (attorneys empty_connection)) = 1"
    by code_simp+
  have c: "entry smith_unnamed ''full_name'' = None"
    by code_simp
  from a upsert_on_natural_key[of empty_connection smith "''TX''" "''John Smith''" smith_moved
      "''John Smith''" "''12345678''"]
  have 1: "length (rows_with_key (snd (insert_attorney (snd (insert_attorney empty_connection smith))
                                 smith_moved)) ''12345678'' ''TX'') = 1"
    "map a_id (attorneys (snd (insert_attorney (snd (insert_attorney empty_connection smith))
                               smith_moved))) =
     map a_id (attorneys (snd (insert_attorney empty_connection smith)))"
    and u: "rows_with_key (snd (insert_attorney (snd (insert_attorney empty_connection smith))
                            smith_moved)) ''12345678'' ''TX'' =
        map (\<lambda>r. r\<lparr>a_first_name := entry smith_moved ''first_name'',
                    a_last_name := entry smith_moved ''last_name'', a_full_name := ''John Smith'',
                    a_status := entry smith_moved ''status'',
                    a_firm_name := entry smith_moved ''firm_name'',
                    a_city := entry smith_moved ''city'', a_county := entry smith_moved ''county'',
                    a_address := entry smith_moved ''address'',
                    a_email := entry smith_moved ''email'',
                    a_phone := entry smith_moved ''phone'',
                    a_website := entry smith_moved ''website''\<rparr>)
          (rows_with_key (snd (insert_attorney empty_connection smith)) ''12345678'' ''TX'')"
    by blast+
  from r1 have r1': "map a_city
       (rows_with_key (snd (insert_attorney empty_connection smith)) ''12345678'' ''TX'') =
       [Some ''Austin'']"
    by (cases "rows_with_key (snd (insert_attorney empty_connection smith)) ''12345678'' ''TX''")
       auto
  from u r1 m have 4: "map (\<lambda>r. (a_id r, a_city r, a_law_school r))
     (rows_with_key (snd (insert_attorney (snd (insert_attorney empty_connection smith))
                            smith_moved)) ''12345678'' ''TX'') =
     [(1, Some ''Dallas'', None)]"
    by (cases "rows_with_key (snd (insert_attorney empty_connection smith)) ''12345678'' ''TX''")
       auto
  from b upsert_on_natural_key[of empty_connection smith_unnumbered "''TX''" "''John Smith''"]
  have 2: "attorneys (snd (insert_attorney empty_connection smith_unnumbered)) =
     attorneys empty_connection @ [new_row 1 ''TX'' ''John Smith'' (entry smith_unnumbered)]"
    "fst (insert_attorney empty_connection smith_unnumbered) = Returns (Some 1)"
    by simp_all
  from c upsert_on_natural_key[of empty_connection smith_unnamed]
  have 3: "insert_attorney empty_connection smith_unnamed = (Returns None, empty_connection)"
    by blast
  from a b c 1 2 3 4 r1' show ?thesis by simp
qed

text \<open>
  C2 as stated fails. The record is new on an empty database: the first call stores it
  under identity 1 and returns 1; the second call updates that row and returns 2, the
  row id of the practice area inserted last, while the only stored row still has
  identity 1. And a record without a name, submitted twice, leaves no row at all.
\<close>

theorem second_call_returns_other_identity:
  "fst (insert_attorney empty_connection smith) = Returns (Some 1) \<and>
   fst (insert_attorney (snd (insert_attorney empty_connection smith)) smith) = Returns (Some 2) \<and>
   map a_id (attorneys (snd (insert_attorney (snd (insert_attorney empty_connection smith)) smith))) = [1] \<and>
   attorneys (snd (insert_attorney (snd (insert_attorney empty_connection smith_unnamed))
                     smith_unnamed)) = []"
  by code_simp

text \<open>
  C7, as the code has it. When a call appends a new attorney row, no practice-area row
  refers to its identity yet, and the list is made of non-empty strings that are
  pairwise distinct once stripped, the areas stored for that identity are the stripped
  strings in order, the first with \<^verbatim>\<open>is_primary\<close> true and each later one with
  \<^verbatim>\<open>is_primary\<close> false. Inserting a pair of identity and area that is stored already
  leaves the rows as they are, and the pairs stay distinct through every call. An
  entry is flagged primary only at index 0; empty entries are skipped.
\<close>

theorem practice_area_flags:
  "(entry d ''state'' = Some st \<and> entry d ''full_name'' = Some nm \<and>
    (entry d ''bar_number'' = None \<or>
     entry d ''bar_number'' = Some b \<and> rows_with_key conn b st = []) \<and>
    practice_areas_entry d = ListValue (map PyStr (s # ss)) \<and>
    (\<forall>x \<in> set (s # ss). x \<noteq> []) \<and> distinct (map strip (s # ss)) \<and>
    i = next_rowid (attorneys_seq conn) (map a_id (attorneys conn)) \<and>
    i \<notin> set (map p_attorney_id (practice_area_rows conn)) \<longrightarrow>
      fst (insert_attorney conn d) = Returns (Some i) \<and>
      areas_of (snd (insert_attorney conn d)) i =
        (strip s, True) # map (\<lambda>x. (strip x, False)) ss) \<and>
   ((aid, area) \<in> set (practice_keys conn) \<longrightarrow>
      practice_area_rows (insert_practice_area conn aid area prim) = practice_area_rows conn) \<and>
   (distinct (practice_keys conn) \<longrightarrow>
      distinct (practice_keys (snd (insert_attorney conn d))))"
proof (intro conjI impI)
  assume a: "entry d ''state'' = Some st \<and> entry d ''full_name'' = Some nm \<and>
    (entry d ''bar_number'' = None \<or>
     entry d ''bar_number'' = Some b \<and> rows_with_key conn b st = []) \<and>
    practice_areas_entry d = ListValue (map PyStr (s # ss)) \<and>
    (\<forall>x \<in> set (s # ss). x \<noteq> []) \<and> distinct (map strip (s # ss)) \<and>
    i = next_rowid (attorneys_seq conn) (map a_id (attorneys conn)) \<and>
    i \<notin> set (map p_attorney_id (practice_area_rows conn))"
  then have nc: "\<not> list_ex (conflicts (entry d ''bar_number'') st) (attorneys conn)"
    by (auto simp: no_conflict_null rows_with_key_empty)
  let ?c1 = "snd (upsert_attorney conn (entry d))"
  from a nc have u: "upsert_attorney conn (entry d) = (Returns (), ?c1)"
    and lir: "last_insert_rowid ?c1 = i"
    and pr: "practice_area_rows ?c1 = practice_area_rows conn"
    by (simp_all add: upsert_insert_path)
  from a have "i \<notin> set (map p_attorney_id (practice_area_rows conn))"
    by blast
  with pr have nin: "i \<notin> set (map p_attorney_id (practice_area_rows ?c1))"
    by simp
  then have fresh: "\<forall>x \<in> set (s # ss). (i, strip x) \<notin> set (practice_keys ?c1)"
    and emp: "areas_of ?c1 i = []"
    by (simp_all add: keys_absent areas_of_empty)
  from a have al: "get_practice_areas d = Some (map PyStr (s # ss))"
    by (simp add: get_practice_areas_def)
  from a have ne: "\<forall>x \<in> set (s # ss). x \<noteq> []" and di: "distinct (map strip (s # ss))"
    by simp_all
  note L = insert_areas_first[OF ne di fresh]
  obtain r c2 where ia: "insert_areas ?c1 i 0 (PyStr s # map PyStr ss) = (r, c2)"
    by (cases "insert_areas ?c1 i 0 (PyStr s # map PyStr ss)") auto
  with L emp have r: "r = Returns ()"
    and ar: "areas_of c2 i = (strip s, True) # map (\<lambda>x. (strip x, False)) ss"
    by (simp_all del: insert_areas.simps)
  have res: "insert_attorney conn d = (Returns (Some i), c2)"
    unfolding insert_attorney_def insert_attorney_body_def
    by (subst u) (simp add: Let_def lir al ia r del: insert_areas.simps)
  from res show "fst (insert_attorney conn d) = Returns (Some i)" by simp
  from res ar show "areas_of (snd (insert_attorney conn d)) i =
        (strip s, True) # map (\<lambda>x. (strip x, False)) ss" by simp
next
  assume "(aid, area) \<in> set (practice_keys conn)"
  then show "practice_area_rows (insert_practice_area conn aid area prim) = practice_area_rows conn"
    by (rule insert_practice_area_present)
next
  assume "distinct (practice_keys conn)"
  then show "distinct (practice_keys (snd (insert_attorney conn d)))"
    by (rule distinct_keys_insert_attorney)
qed

theorem practice_area_flags_witness:
  "entry smith ''state'' = Some ''TX'' \<and> entry smith ''full_name'' = Some ''John Smith'' \<and>
   entry smith ''bar_number'' = Some ''12345678'' \<and>
   rows_with_key empty_connection ''12345678'' ''TX'' = [] \<and>
   practice_areas_entry smith = ListValue (map PyStr [''Litigation'', ''Family Law'']) \<and>
   distinct (map strip [''Litigation'', ''Family Law'']) \<and>
   1 = next_rowid (attorneys_seq empty_connection) (map a_id (attorneys empty_connection)) \<and>
   1 \<notin> set (map p_attorney_id (practice_area_rows empty_connection)) \<and>
   fst (insert_attorney empty_connection smith) = Returns (Some 1) \<and>
   areas_of (snd (insert_attorney empty_connection smith)) 1 =
     [(''Litigation'', True), (''Family Law'', False)] \<and>
   (1, ''Litigation'') \<in> set (practice_keys (snd (insert_attorney empty_connection smith))) \<and>
   practice_area_rows
     (insert_practice_area (snd (insert_attorney empty_connection smith)) 1 ''Litigation'' False) =
     practice_area_rows (snd (insert_attorney empty_connection smith)) \<and>
   distinct (practice_keys empty_connection) \<and>
   distinct (practice_keys (snd (insert_attorney empty_connection smith)))"
proof -
  have a: "entry smith ''state'' = Some ''TX''" "entry smith ''full_name'' = Some ''John Smith''"
    "entry smith ''bar_number'' = Some ''12345678''"
    "rows_with_key empty_connection ''12345678'' ''TX'' = []"
    "practice_areas_entry smith = ListValue (map PyStr [''Litigation'', ''Family Law''])"
    "\<forall>x \<in> set [''Litigation'', ''Family Law'']. x \<noteq> []"
    "distinct (map strip [''Litigation'', ''Family Law''])"
    "1 = next_rowid (attorneys_seq empty_connection) (map a_id (attorneys empty_connection))"
    "1 \<notin> set (map p_attorney_id (practice_area_rows empty_connection))"
    by code_simp+
  have s: "strip ''Litigation'' = ''Litigation''" "strip ''Family Law'' = ''Family Law''"
    by code_simp+
  have b: "(1, ''Litigation'') \<in> set (practice_keys (snd (insert_attorney empty_connection smith)))"
    and c: "distinct (practice_keys empty_connection)"
    by code_simp+
  from a practice_area_flags[of smith "''TX''" "''John Smith''" "''12345678''" empty_connection
      "''Litigation''" "[''Family Law'']" 1]
  have 1: "fst (insert_attorney empty_connection smith) = Returns (Some 1)"
    "areas_of (snd (insert_attorney empty_connection smith)) 1 =
       (strip ''Litigation'', True) # map (\<lambda>x. (strip x, False)) [''Family Law'']"
    by blast+
  from b practice_area_flags[of _ _ _ _ "snd (insert_attorney empty_connection smith)" _ _ _
      1 "''Litigation''" False]
  have 2: "practice_area_rows
     (insert_practice_area (snd (insert_attorney empty_connection smith)) 1 ''Litigation'' False) =
     practice_area_rows (snd (insert_attorney empty_connection smith))"
    by blast
  from c practice_area_flags[of smith _ _ _ empty_connection]
  have 3: "distinct (practice_keys (snd (insert_attorney empty_connection smith)))"
    by blast
  from a b c 1 2 3 s show ?thesis by simp
qed

text \<open>
  C7 as stated fails: the list is not empty, its first entry is the empty string, and
  the only area stored for the new identity has \<^verbatim>\<open>is_primary\<close> false.
\<close>

theorem blank_first_area_no_primary:
  "practice_areas_entry smith_blank_first = ListValue [PyStr [], PyStr ''Litigation''] \<and>
   fst (insert_attorney empty_connection smith_blank_first) = Returns (Some 1) \<and>
   areas_of (snd (insert_attorney empty_connection smith_blank_first)) 1 =
     [(''Litigation'', False)]"
  by code_simp

text \<open>
  C10. \<^verbatim>\<open>insert_attorney\<close> returns for every record and every state of the database,
  and whenever the statements of its \<^verbatim>\<open>try\<close> block raise, it returns \<^verbatim>\<open>None\<close>, with the
  connection as the failing statement left it.
\<close>

theorem insert_attorney_never_raises:
  "(\<exists>r. fst (insert_attorney conn d) = Returns r) \<and>
   (\<forall>e. fst (insert_attorney_body conn d) = Raises e \<longrightarrow>
        insert_attorney conn d = (Returns None, snd (insert_attorney_body conn d)))"
  by (cases "insert_attorney_body conn d"; cases "fst (insert_attorney_body conn d)")
     (auto simp: insert_attorney_def)

theorem insert_attorney_never_raises_witness:
  "fst (insert_attorney_body empty_connection smith_unnamed) = Raises IntegrityError \<and>
   insert_attorney empty_connection smith_unnamed =
     (Returns None, snd (insert_attorney_body empty_connection smith_unnamed)) \<and>
   fst (insert_attorney_body empty_connection smith_bad_area) = Raises AttributeError \<and>
   insert_attorney empty_connection smith_bad_area =
     (Returns None, snd (insert_attorney_body empty_connection smith_bad_area)) \<and>
   map a_id (attorneys (snd (insert_attorney empty_connection smith_bad_area))) = [1] \<and>
   fst (insert_attorney_body empty_connection smith_none_areas) = Raises TypeError \<and>
   insert_attorney empty_connection smith_none_areas =
     (Returns None, snd (insert_attorney_body empty_connection smith_none_areas)) \<and>
   map a_id (attorneys (snd (insert_attorney empty_connection smith_none_areas))) = [1]"
proof -
  have a: "fst (insert_attorney_body empty_connection smith_unnamed) = Raises IntegrityError"
    and b: "fst (insert_attorney_body empty_connection smith_bad_area) = Raises AttributeError"
    and c: "map a_id (attorneys (snd (insert_attorney empty_connection smith_bad_area))) = [1]"
    and t: "fst (insert_attorney_body empty_connection smith_none_areas) = Raises TypeError"
    and t': "map a_id (attorneys (snd (insert_attorney empty_connection smith_none_areas))) = [1]"
    by code_simp+
  from t insert_attorney_never_raises[of empty_connection smith_none_areas]
  have 0: "insert_attorney empty_connection smith_none_areas =
     (Returns None, snd (insert_attorney_body empty_connection smith_none_areas))"
    by blast
  from a insert_attorney_never_raises[of empty_connection smith_unnamed]
  have 1: "insert_attorney empty_connection smith_unnamed =
     (Returns None, snd (insert_attorney_body empty_connection smith_unnamed))"
    by blast
  from b insert_attorney_never_raises[of empty_connection smith_bad_area]
  have 2: "insert_attorney empty_connection smith_bad_area =
     (Returns None, snd (insert_attorney_body empty_connection smith_bad_area))"
    by blast
  from a b c t t' 0 1 2 show ?thesis by simp
qed

section \<open>The runner\<close>

text \<open>
  C9. For a state code that is not in the registry, \<^verbatim>\<open>run_scraper\<close> returns \<^verbatim>\<open>False\<close>
  after its two messages, whatever the loader is, and the world outside the runner is
  as it was: no module is imported, no scraper is constructed or run, so nothing is
  requested and no scrape run is recorded.
\<close>

theorem unknown_state_fails_first:
  "state_code \<notin> set (map fst SCRAPERS) \<Longrightarrow>
     run_scraper load state_code db_path w =
       ((False, [UnknownState state_code, AvailableStates (map fst SCRAPERS)]), w)"
  by (simp add: run_scraper_def map_of_eq_None_iff[THEN iffD2])

theorem unknown_state_fails_first_witness:
  "''ZZ'' \<notin> set (map fst SCRAPERS) \<and>
   run_scraper counting_load ''ZZ'' ''attorneys.db'' (0::nat) =
     ((False, [UnknownState ''ZZ'', AvailableStates [''CA'', ''NY'', ''TX'', ''FL'', ''IL'']]), 0) \<and>
   run_scraper counting_load ''TX'' ''attorneys.db'' (0::nat) = ((True, []), 1)"
proof -
  have a: "''ZZ'' \<notin> set (map fst SCRAPERS)"
    and b: "map fst SCRAPERS = [''CA'', ''NY'', ''TX'', ''FL'', ''IL'']"
    and c: "run_scraper counting_load ''TX'' ''attorneys.db'' (0::nat) = ((True, []), 1)"
    by code_simp+
  from a b c unknown_state_fails_first[OF a, of counting_load "''attorneys.db''" "0::nat"]
  show ?thesis by simp
qed

end
